theory Spec2Isabelle
  imports Main "HOL-Library.Log_Nat" "HOL-Library.Word"
begin

section \<open>JavaScript numbers\<close>

text \<open>
  The validator of \<^verbatim>\<open>src/App.tsx\<close> computes on JavaScript numbers, which are IEEE-754
  binary64 values. A number is modelled by the rational it denotes, or one of the three
  special values. Every arithmetic operation computes the exact result and rounds it to
  the nearest binary64 value, ties to even (\<open>rnd\<close>). The two zeros are identified: the
  code never divides by a computed value, so no result depends on the sign of a zero.
\<close>

datatype jsnum = Fin rat | PInf | NInf | NaN

definition pow2 :: "int \<Rightarrow> rat" where
  "pow2 e = (if 0 \<le> e then 2 ^ nat e else 1 / 2 ^ nat (- e))"

text \<open>\<open>ilog2 a\<close> is the integer \<open>e\<close> with \<open>2^e \<le> a < 2^(e+1)\<close>, for \<open>a > 0\<close>.\<close>

definition ilog2 :: "rat \<Rightarrow> int" where
  "ilog2 a = (if 1 \<le> a then bitlen \<lfloor>a\<rfloor> - 1 else - bitlen (\<lceil>1 / a\<rceil> - 1))"

definition round_half_even :: "rat \<Rightarrow> int" where
  "round_half_even r =
     (let f = \<lfloor>r\<rfloor>; d = r - of_int f
      in if d < 1 / 2 then f else if 1 / 2 < d then f + 1 else if even f then f else f + 1)"

text \<open>
  Rounding to binary64: 53 significant bits, the smallest spacing is \<open>2^-1074\<close>
  (subnormals), and a result of magnitude \<open>2^1024\<close> or more is an infinity.
\<close>

definition rnd :: "rat \<Rightarrow> jsnum" where
  "rnd q =
     (if q = 0 then Fin 0
      else let a = \<bar>q\<bar>;
               u = pow2 (max (ilog2 a - 52) (- 1074));
               r = of_int (round_half_even (a / u)) * u
           in if pow2 1024 \<le> r then (if 0 < q then PInf else NInf)
              else Fin (if 0 < q then r else - r))"

text \<open>The binary operators \<^verbatim>\<open>-\<close>, \<^verbatim>\<open>*\<close> and \<^verbatim>\<open>/\<close> on numbers.\<close>

fun js_sub :: "jsnum \<Rightarrow> jsnum \<Rightarrow> jsnum" where
  "js_sub NaN _ = NaN"
| "js_sub _ NaN = NaN"
| "js_sub (Fin a) (Fin b) = rnd (a - b)"
| "js_sub PInf PInf = NaN"
| "js_sub NInf NInf = NaN"
| "js_sub PInf _ = PInf"
| "js_sub NInf _ = NInf"
| "js_sub (Fin a) PInf = NInf"
| "js_sub (Fin a) NInf = PInf"

fun js_sign :: "jsnum \<Rightarrow> int" where
  "js_sign (Fin a) = (if a = 0 then 0 else if 0 < a then 1 else - 1)"
| "js_sign PInf = 1"
| "js_sign NInf = - 1"
| "js_sign NaN = 0"

fun js_mul :: "jsnum \<Rightarrow> jsnum \<Rightarrow> jsnum" where
  "js_mul NaN _ = NaN"
| "js_mul _ NaN = NaN"
| "js_mul (Fin a) (Fin b) = rnd (a * b)"
| "js_mul x y =
     (let s = js_sign x * js_sign y
      in if s = 0 then NaN else if 0 < s then PInf else NInf)"

fun js_div :: "jsnum \<Rightarrow> jsnum \<Rightarrow> jsnum" where
  "js_div NaN _ = NaN"
| "js_div _ NaN = NaN"
| "js_div (Fin a) (Fin b) =
     (if b = 0 then (if a = 0 then NaN else if 0 < a then PInf else NInf)
      else rnd (a / b))"
| "js_div (Fin a) _ = Fin 0"
| "js_div x (Fin b) = (if (0 \<le> b) = (x = PInf) then PInf else NInf)"
| "js_div _ _ = NaN"

text \<open>
  \<^verbatim>\<open>Math.round\<close>: the nearest integer, a tie going towards \<open>+\<infinity>\<close>. The result is exact:
  a binary64 value of magnitude \<open>2^52\<close> or more is an integer already.
\<close>

fun Math_round :: "jsnum \<Rightarrow> jsnum" where
  "Math_round (Fin a) = Fin (of_int \<lfloor>a + 1 / 2\<rfloor>)"
| "Math_round x = x"

fun Math_abs :: "jsnum \<Rightarrow> jsnum" where
  "Math_abs (Fin a) = Fin \<bar>a\<bar>"
| "Math_abs NInf = PInf"
| "Math_abs x = x"

text \<open>The comparisons \<^verbatim>\<open>>\<close> and \<^verbatim>\<open><=\<close>: both are false when an operand is \<open>NaN\<close>.\<close>

fun js_lt :: "jsnum \<Rightarrow> jsnum \<Rightarrow> bool" where
  "js_lt NaN _ = False"
| "js_lt _ NaN = False"
| "js_lt (Fin a) (Fin b) = (a < b)"
| "js_lt _ NInf = False"
| "js_lt NInf _ = True"
| "js_lt PInf _ = False"
| "js_lt (Fin a) PInf = True"

definition js_gt :: "jsnum \<Rightarrow> jsnum \<Rightarrow> bool" where
  "js_gt x y = js_lt y x"

definition js_le :: "jsnum \<Rightarrow> jsnum \<Rightarrow> bool" where
  "js_le x y = (x \<noteq> NaN \<and> y \<noteq> NaN \<and> \<not> js_lt y x)"

section \<open>JavaScript strings and values\<close>

text \<open>
  A string is a sequence of UTF-16 code units; \<open>ascii\<close> embeds an ASCII literal.
\<close>

type_synonym jsstring = "16 word list"

definition ascii :: "string \<Rightarrow> jsstring" where
  "ascii s = map of_char s"

text \<open>
  The values the validator can receive: what \<^verbatim>\<open>JSON.parse\<close>, \<^verbatim>\<open>csvToInvoice\<close> and
  object literals produce (\<^verbatim>\<open>null\<close>, booleans, numbers, strings, arrays, plain objects whose
  properties are such values), and \<^verbatim>\<open>undefined\<close>. An object is the list of its own
  properties; \<open>map_of\<close> reads one.
\<close>

datatype jsval =
    JUndefined
  | JNull
  | JBool bool
  | JNum jsnum
  | JStr jsstring
  | JArr "jsval list"
  | JObj "(jsstring \<times> jsval) list"

datatype error = TypeError

definition ebind :: "error + 'a \<Rightarrow> ('a \<Rightarrow> error + 'b) \<Rightarrow> error + 'b" where
  "ebind m f = (case m of Inl e \<Rightarrow> Inl e | Inr x \<Rightarrow> f x)"

subsection \<open>Number to string\<close>

definition pow10 :: "int \<Rightarrow> rat" where
  "pow10 e = (if 0 \<le> e then 10 ^ nat e else 1 / 10 ^ nat (- e))"

definition digit_char :: "int \<Rightarrow> char" where
  "digit_char d = char_of (48 + d)"

text \<open>The decimal digits of a natural number, and how many there are.\<close>

function digits10 :: "int \<Rightarrow> string" where
  "digits10 n = (if n < 10 then [digit_char n] else digits10 (n div 10) @ [digit_char (n mod 10)])"
  by pat_completeness auto
termination
  by (relation "measure nat") auto

declare digits10.simps [simp del]

definition declen :: "int \<Rightarrow> int" where
  "declen n = int (length (digits10 n))"

text \<open>\<open>ilog10 a\<close> is the integer \<open>e\<close> with \<open>10^e \<le> a < 10^(e+1)\<close>, for \<open>a > 0\<close>.\<close>

definition ilog10 :: "rat \<Rightarrow> int" where
  "ilog10 a = (if 1 \<le> a then declen \<lfloor>a\<rfloor> - 1 else - declen (\<lceil>1 / a\<rceil> - 1))"

text \<open>
  \<^verbatim>\<open>Number::toString\<close> (ECMA-262) writes a positive finite \<open>x\<close> with the integers
  \<open>n\<close>, \<open>k\<close>, \<open>s\<close> such that \<open>s\<close> has \<open>k\<close> digits, \<open>s \<times> 10^(n-k)\<close> rounds to \<open>x\<close>,
  and \<open>k\<close> is as small as possible; among several \<open>s\<close> the one closest to \<open>x\<close>.
  With \<open>k\<close> digits the closest candidates are the two multiples of \<open>10^(n0-k)\<close> around
  \<open>x\<close>, where \<open>10^(n0-1) \<le> x < 10^n0\<close>.
\<close>

definition candidate :: "rat \<Rightarrow> nat \<Rightarrow> (int \<times> int) option" where
  "candidate x k =
     (let n0 = ilog10 x + 1;
          sc = pow10 (n0 - int k);
          lo = \<lfloor>x / sc\<rfloor>;
          hi = lo + 1;
          okl = (rnd (of_int lo * sc) = Fin x);
          okh = (rnd (of_int hi * sc) = Fin x);
          dl = x - of_int lo * sc;
          dh = of_int hi * sc - x
      in if okh \<and> (\<not> okl \<or> dh < dl \<or> (dh = dl \<and> even hi))
         then Some (if hi = 10 ^ k then (10 ^ (k - 1), n0 + 1) else (hi, n0))
         else if okl then Some (lo, n0)
         else None)"

text \<open>
  The search tries \<open>k = 1, 2, \<dots>\<close> in turn. Seventeen digits identify every binary64
  value, so it ends with a candidate; the last case of \<open>shortest\<close> only makes the
  function total on rationals that are no binary64 value.
\<close>

fun first_candidate :: "rat \<Rightarrow> nat list \<Rightarrow> (int \<times> int) option" where
  "first_candidate x [] = None"
| "first_candidate x (k # ks) =
     (case candidate x k of Some c \<Rightarrow> Some c | None \<Rightarrow> first_candidate x ks)"

definition shortest :: "rat \<Rightarrow> int \<times> int" where
  "shortest x =
     (case first_candidate x [1, 2, 3, 4, 5, 6, 7, 8, 9, 10, 11, 12, 13, 14, 15, 16, 17] of
        Some c \<Rightarrow> c
      | None \<Rightarrow> (\<lfloor>x / pow10 (ilog10 x - 16)\<rfloor>, ilog10 x + 1))"

definition exponent_part :: "int \<Rightarrow> string" where
  "exponent_part e = (if e < 0 then ''-'' else ''+'') @ digits10 \<bar>e\<bar>"

definition positive_to_string :: "rat \<Rightarrow> string" where
  "positive_to_string x =
     (let (s, n) = shortest x;
          ds = digits10 s;
          k = int (length ds)
      in if k \<le> n \<and> n \<le> 21 then ds @ replicate (nat (n - k)) (CHR ''0'')
         else if 0 < n \<and> n \<le> 21 then take (nat n) ds @ ''.'' @ drop (nat n) ds
         else if - 6 < n \<and> n \<le> 0 then ''0.'' @ replicate (nat (- n)) (CHR ''0'') @ ds
         else if k = 1 then ds @ ''e'' @ exponent_part (n - 1)
         else take 1 ds @ ''.'' @ drop 1 ds @ ''e'' @ exponent_part (n - 1))"

fun Number_toString :: "jsnum \<Rightarrow> string" where
  "Number_toString NaN = ''NaN''"
| "Number_toString PInf = ''Infinity''"
| "Number_toString NInf = ''-Infinity''"
| "Number_toString (Fin a) =
     (if a = 0 then ''0''
      else if a < 0 then ''-'' @ positive_to_string (- a)
      else positive_to_string a)"

subsection \<open>Operations on values\<close>

text \<open>Truthiness (\<^verbatim>\<open>ToBoolean\<close>), \<^verbatim>\<open>v == null\<close>, and \<^verbatim>\<open>a ?? b\<close>.\<close>

fun truthy :: "jsval \<Rightarrow> bool" where
  "truthy JUndefined = False"
| "truthy JNull = False"
| "truthy (JBool b) = b"
| "truthy (JNum n) = (n \<noteq> NaN \<and> n \<noteq> Fin 0)"
| "truthy (JStr s) = (s \<noteq> [])"
| "truthy (JArr xs) = True"
| "truthy (JObj ps) = True"

definition nullish :: "jsval \<Rightarrow> bool" where
  "nullish v = (v = JUndefined \<or> v = JNull)"

definition coalesce :: "jsval \<Rightarrow> jsval \<Rightarrow> jsval" where
  "coalesce a b = (if nullish a then b else a)"

text \<open>
  Reading a property. The validator reads seven names (\<^verbatim>\<open>supplierVat\<close>, \<^verbatim>\<open>customerVat\<close>,
  \<^verbatim>\<open>date\<close>, \<^verbatim>\<open>total\<close>, \<^verbatim>\<open>vat\<close>, \<^verbatim>\<open>currency\<close>, \<^verbatim>\<open>invoiceId\<close>); no built-in prototype
  defines any of them, so a value other than an object that has the property yields
  \<^verbatim>\<open>undefined\<close>. \<open>get\<close> is \<^verbatim>\<open>inv.f\<close>, which throws on \<^verbatim>\<open>null\<close> and \<^verbatim>\<open>undefined\<close>;
  \<open>opt_get\<close> is \<^verbatim>\<open>inv?.f\<close>.
\<close>

fun own_property :: "jsval \<Rightarrow> jsstring \<Rightarrow> jsval" where
  "own_property (JObj ps) f = (case map_of ps f of Some v \<Rightarrow> v | None \<Rightarrow> JUndefined)"
| "own_property _ f = JUndefined"

definition get :: "jsval \<Rightarrow> jsstring \<Rightarrow> error + jsval" where
  "get invoice f = (if nullish invoice then Inl TypeError else Inr (own_property invoice f))"

definition opt_get :: "jsval \<Rightarrow> jsstring \<Rightarrow> jsval" where
  "opt_get invoice f = (if nullish invoice then JUndefined else own_property invoice f)"

text \<open>
  \<^verbatim>\<open>String(v)\<close>. An array joins the strings of its elements with commas, \<^verbatim>\<open>null\<close> and
  \<^verbatim>\<open>undefined\<close> elements giving the empty string. A plain object gives
  \<^verbatim>\<open>[object Object]\<close> through the inherited \<^verbatim>\<open>toString\<close>; when the object has an own
  property \<^verbatim>\<open>toString\<close> (not callable, for the values above) the conversion finds no
  method that returns a primitive and throws a \<^verbatim>\<open>TypeError\<close>.
\<close>

fun js_String :: "jsval \<Rightarrow> error + jsstring"
  and join :: "jsval list \<Rightarrow> error + jsstring" where
  "js_String JUndefined = Inr (ascii ''undefined'')"
| "js_String JNull = Inr (ascii ''null'')"
| "js_String (JBool b) = Inr (ascii (if b then ''true'' else ''false''))"
| "js_String (JNum n) = Inr (ascii (Number_toString n))"
| "js_String (JStr s) = Inr s"
| "js_String (JArr xs) = join xs"
| "js_String (JObj ps) =
     (if map_of ps (ascii ''toString'') \<noteq> None then Inl TypeError
      else Inr (ascii ''[object Object]''))"
| "join [] = Inr []"
| "join (x # xs) =
     (case (if nullish x then Inr [] else js_String x) of
        Inl e \<Rightarrow> Inl e
      | Inr a \<Rightarrow>
          (if xs = [] then Inr a
           else case join xs of Inl e \<Rightarrow> Inl e | Inr b \<Rightarrow> Inr (a @ ascii '','' @ b)))"

text \<open>\<^verbatim>\<open>/^\\d{9}$/.test(s)\<close>: exactly nine code units, each an ASCII digit.\<close>

definition is_digit :: "16 word \<Rightarrow> bool" where
  "is_digit c = (48 \<le> c \<and> c \<le> 57)"

definition nine_digits :: "jsstring \<Rightarrow> bool" where
  "nine_digits s = (length s = 9 \<and> list_all is_digit s)"

text \<open>
  \<^verbatim>\<open>xs.includes(v)\<close> compares with \<^verbatim>\<open>SameValueZero\<close>; against a list of strings this is
  equality of values.
\<close>

definition Array_includes :: "jsval list \<Rightarrow> jsval \<Rightarrow> bool" where
  "Array_includes xs v = (v \<in> set xs)"

section \<open>The report\<close>

datatype Severity = LOW | MED | HIGH

datatype Level = GREEN | YELLOW | RED

record Issue =
  code :: jsstring
  severity :: Severity
  message :: jsstring
  fix' :: jsstring

record Meta =
  supplierVat :: jsval
  customerVat :: jsval
  total :: jsval
  vat :: jsval
  date :: jsval
  currency :: jsval

record Report =
  level :: Level
  score :: int
  issues :: "Issue list"
  meta :: Meta

definition req :: "jsstring \<Rightarrow> Severity \<Rightarrow> jsstring \<Rightarrow> jsstring \<Rightarrow> Issue" where
  "req c s m f = \<lparr>code = c, severity = s, message = m, fix' = f\<rparr>"

definition extractMeta :: "jsval \<Rightarrow> Meta" where
  "extractMeta invoice =
     \<lparr>supplierVat = coalesce (opt_get invoice (ascii ''supplierVat'')) (JStr []),
      customerVat = coalesce (opt_get invoice (ascii ''customerVat'')) (JStr []),
      total = coalesce (opt_get invoice (ascii ''total'')) (JStr []),
      vat = coalesce (opt_get invoice (ascii ''vat'')) (JStr []),
      date = coalesce (opt_get invoice (ascii ''date'')) (JStr []),
      currency = coalesce (opt_get invoice (ascii ''currency'')) (JStr (ascii ''ILS''))\<rparr>"

subsection \<open>The texts of the findings\<close>

text \<open>
  The message and the suggested fix of each rule, as the UTF-16 code units of the
  literals in the source.
\<close>

definition msg_SUPPLIER_VAT :: jsstring where
  "msg_SUPPLIER_VAT =
     [0x05D7, 0x05E1, 0x05E8, 0x0020, 0x05DE, 0x05E1, 0x05E4, 0x05E8, 0x0020, 0x05E2, 0x05D5,
      0x05E1, 0x05E7, 0x0020, 0x05E9, 0x05DC, 0x0020, 0x05D4, 0x05E1, 0x05E4, 0x05E7]"

definition fix_SUPPLIER_VAT :: jsstring where
  "fix_SUPPLIER_VAT =
     [0x05D4, 0x05D5, 0x05E1, 0x05E3, 0x0020, 0x05DE, 0x05E1, 0x05E4, 0x05E8, 0x0020, 0x05E2,
      0x05D5, 0x05E1, 0x05E7, 0x0020, 0x0028, 0x0039, 0x0020, 0x05E1, 0x05E4, 0x05E8, 0x05D5,
      0x05EA, 0x0029, 0x0020, 0x05D1, 0x05E9, 0x05D3, 0x05D4, 0x0020, 0x0073, 0x0075, 0x0070,
      0x0070, 0x006C, 0x0069, 0x0065, 0x0072, 0x0056, 0x0061, 0x0074]"

definition msg_CUSTOMER_VAT :: jsstring where
  "msg_CUSTOMER_VAT =
     [0x05D7, 0x05E1, 0x05E8, 0x0020, 0x05DE, 0x05E1, 0x05E4, 0x05E8, 0x0020, 0x05E2, 0x05D5,
      0x05E1, 0x05E7, 0x0020, 0x05E9, 0x05DC, 0x0020, 0x05D4, 0x05DC, 0x05E7, 0x05D5, 0x05D7]"

definition fix_CUSTOMER_VAT :: jsstring where
  "fix_CUSTOMER_VAT =
     [0x05D4, 0x05D5, 0x05E1, 0x05E3, 0x0020, 0x05DE, 0x05E1, 0x05E4, 0x05E8, 0x0020, 0x05E2,
      0x05D5, 0x05E1, 0x05E7, 0x0020, 0x05D1, 0x05E9, 0x05D3, 0x05D4, 0x0020, 0x0063, 0x0075,
      0x0073, 0x0074, 0x006F, 0x006D, 0x0065, 0x0072, 0x0056, 0x0061, 0x0074]"

definition msg_DATE :: jsstring where
  "msg_DATE =
     [0x05D7, 0x05E1, 0x05E8, 0x0020, 0x05EA, 0x05D0, 0x05E8, 0x05D9, 0x05DA, 0x0020, 0x05D7,
      0x05E9, 0x05D1, 0x05D5, 0x05E0, 0x05D9, 0x05EA]"

definition fix_DATE :: jsstring where
  "fix_DATE =
     [0x05D4, 0x05D5, 0x05E1, 0x05E3, 0x0020, 0x05EA, 0x05D0, 0x05E8, 0x05D9, 0x05DA, 0x0020,
      0x05D1, 0x05E4, 0x05D5, 0x05E8, 0x05DE, 0x05D8, 0x0020, 0x0059, 0x0059, 0x0059, 0x0059,
      0x002D, 0x004D, 0x004D, 0x002D, 0x0044, 0x0044]"

definition msg_TOTAL :: jsstring where
  "msg_TOTAL =
     [0x05D7, 0x05E1, 0x05E8, 0x0020, 0x05E1, 0x05DB, 0x05D5, 0x05DD, 0x0020, 0x05E1, 0x05D5,
      0x05E4, 0x05D9, 0x0020, 0x0028, 0x0074, 0x006F, 0x0074, 0x0061, 0x006C, 0x0029]"

definition fix_TOTAL :: jsstring where
  "fix_TOTAL =
     [0x05D4, 0x05D5, 0x05E1, 0x05E3, 0x0020, 0x05E1, 0x05DB, 0x05D5, 0x05DD, 0x0020, 0x05DB,
      0x05D5, 0x05DC, 0x05DC]"

definition msg_VAT :: jsstring where
  "msg_VAT =
     [0x05D7, 0x05E1, 0x05E8, 0x0020, 0x05E1, 0x05DB, 0x05D5, 0x05DD, 0x0020, 0x05DE, 0x05E2,
      0x0022, 0x05DE, 0x0020, 0x0028, 0x0076, 0x0061, 0x0074, 0x0029]"

definition fix_VAT :: jsstring where
  "fix_VAT =
     [0x05D4, 0x05D5, 0x05E1, 0x05E3, 0x0020, 0x05E1, 0x05DB, 0x05D5, 0x05DD, 0x0020, 0x05DE,
      0x05E2, 0x0022, 0x05DE]"

definition msg_SUPPLIER_VAT_FMT :: jsstring where
  "msg_SUPPLIER_VAT_FMT =
     [0x05E4, 0x05D5, 0x05E8, 0x05DE, 0x05D8, 0x0020, 0x05E2, 0x05D5, 0x05E1, 0x05E7, 0x0020,
      0x05E1, 0x05E4, 0x05E7, 0x0020, 0x05DC, 0x05D0, 0x0020, 0x05EA, 0x05E7, 0x05D9, 0x05DF]"

definition fix_SUPPLIER_VAT_FMT :: jsstring where
  "fix_SUPPLIER_VAT_FMT =
     [0x05D5, 0x05D3, 0x05D0, 0x0020, 0x0039, 0x0020, 0x05E1, 0x05E4, 0x05E8, 0x05D5, 0x05EA,
      0x0020, 0x05DC, 0x05DC, 0x05D0, 0x0020, 0x05DE, 0x05E7, 0x05E4, 0x05D9, 0x05DD]"

definition msg_CUSTOMER_VAT_FMT :: jsstring where
  "msg_CUSTOMER_VAT_FMT =
     [0x05E4, 0x05D5, 0x05E8, 0x05DE, 0x05D8, 0x0020, 0x05E2, 0x05D5, 0x05E1, 0x05E7, 0x0020,
      0x05DC, 0x05E7, 0x05D5, 0x05D7, 0x0020, 0x05DC, 0x05D0, 0x0020, 0x05EA, 0x05E7, 0x05D9,
      0x05DF]"

definition fix_CUSTOMER_VAT_FMT :: jsstring where
  "fix_CUSTOMER_VAT_FMT =
     [0x05D5, 0x05D3, 0x05D0, 0x0020, 0x0039, 0x0020, 0x05E1, 0x05E4, 0x05E8, 0x05D5, 0x05EA,
      0x0020, 0x05DC, 0x05DC, 0x05D0, 0x0020, 0x05DE, 0x05E7, 0x05E4, 0x05D9, 0x05DD]"

definition msg_VAT_MISMATCH_prefix :: jsstring where
  "msg_VAT_MISMATCH_prefix =
     [0x05DE, 0x05E2, 0x0022, 0x05DE, 0x0020, 0x05DC, 0x05D0, 0x0020, 0x05EA, 0x05D5, 0x05D0,
      0x05DD, 0x0020, 0x05D0, 0x05EA, 0x0020, 0x05E9, 0x05D9, 0x05E2, 0x05D5, 0x05E8, 0x0020]"

definition fix_VAT_MISMATCH :: jsstring where
  "fix_VAT_MISMATCH =
     [0x05D1, 0x05D3, 0x05D5, 0x05E7, 0x0020, 0x05D7, 0x05D9, 0x05E9, 0x05D5, 0x05D1, 0x05D9,
      0x0020, 0x05D1, 0x05D9, 0x05E0, 0x05D9, 0x05D9, 0x05DD, 0x002F, 0x05E2, 0x05D2, 0x05D5,
      0x05DC, 0x0020, 0x05E1, 0x05DB, 0x05D5, 0x05DE, 0x05D9, 0x05DD]"

definition msg_SUBTOTAL_NEG :: jsstring where
  "msg_SUBTOTAL_NEG =
     [0x05E1, 0x05DB, 0x05D5, 0x05DD, 0x0020, 0x05DC, 0x05E4, 0x05E0, 0x05D9, 0x0020, 0x05DE,
      0x05E2, 0x0022, 0x05DE, 0x0020, 0x05DC, 0x05D0, 0x0020, 0x05EA, 0x05E7, 0x05D9, 0x05DF,
      0x0020, 0x0028, 0x05E9, 0x05DC, 0x05D9, 0x05DC, 0x05D9, 0x002F, 0x05D0, 0x05E4, 0x05E1,
      0x0029]"

definition fix_SUBTOTAL_NEG :: jsstring where
  "fix_SUBTOTAL_NEG =
     [0x05D1, 0x05D3, 0x05D5, 0x05E7, 0x0020, 0x05E9, 0x05D5, 0x05E8, 0x05EA, 0x0020, 0x05E4,
      0x05E8, 0x05D9, 0x05D8, 0x05D9, 0x05DD, 0x0020, 0x05D5, 0x05D7, 0x05D9, 0x05E9, 0x05D5,
      0x05D1, 0x0020, 0x05E1, 0x05D9, 0x05DB, 0x05D5, 0x05DE, 0x05D9, 0x05DD]"

definition msg_CURRENCY_UNSUPPORTED :: jsstring where
  "msg_CURRENCY_UNSUPPORTED =
     [0x05DE, 0x05D8, 0x05D1, 0x05E2, 0x0020, 0x05DC, 0x05D0, 0x0020, 0x05E0, 0x05EA, 0x05DE,
      0x05DA, 0x0020, 0x05D1, 0x002D, 0x004D, 0x0056, 0x0050]"

definition fix_CURRENCY_UNSUPPORTED :: jsstring where
  "fix_CURRENCY_UNSUPPORTED =
     [0x05D4, 0x05E9, 0x05EA, 0x05DE, 0x05E9, 0x0020, 0x05D1, 0x002D, 0x0049, 0x004C, 0x0053,
      0x002F, 0x0055, 0x0053, 0x0044, 0x002F, 0x0045, 0x0055, 0x0052]"

definition msg_INVOICE_ID_WEAK :: jsstring where
  "msg_INVOICE_ID_WEAK =
     [0x05DE, 0x05D6, 0x05D4, 0x05D4, 0x0020, 0x05D7, 0x05E9, 0x05D1, 0x05D5, 0x05E0, 0x05D9,
      0x05EA, 0x0020, 0x05D7, 0x05DC, 0x05E9, 0x002F, 0x05E7, 0x05E6, 0x05E8, 0x0020, 0x05DE,
      0x05D3, 0x05D9]"

definition fix_INVOICE_ID_WEAK :: jsstring where
  "fix_INVOICE_ID_WEAK =
     [0x05D4, 0x05D2, 0x05D3, 0x05DC, 0x0020, 0x05D0, 0x05EA, 0x0020, 0x05D0, 0x05D5, 0x05E8,
      0x05DA, 0x0020, 0x05D4, 0x05DE, 0x05D6, 0x05D4, 0x05D4, 0x0020, 0x05DC, 0x05DE, 0x05D9,
      0x05E0, 0x05D9, 0x05DE, 0x05D5, 0x05DD, 0x0020, 0x0036, 0x0020, 0x05EA, 0x05D5, 0x05D5,
      0x05D9, 0x05DD]"

section \<open>The validator\<close>

text \<open>
  \<open>guarded invoice f P\<close> is the condition \<^verbatim>\<open>inv?.f && P(inv.f)\<close>: the second operand is
  evaluated only when the first is truthy.
\<close>

definition guarded :: "jsval \<Rightarrow> jsstring \<Rightarrow> (jsval \<Rightarrow> error + bool) \<Rightarrow> error + bool" where
  "guarded invoice f P = (if truthy (opt_get invoice f) then ebind (get invoice f) P else Inr False)"

text \<open>\<open>push\<close> is \<^verbatim>\<open>if (c) issues.push(i)\<close>.\<close>

definition push :: "bool \<Rightarrow> Issue \<Rightarrow> Issue list \<Rightarrow> Issue list" where
  "push c i xs = (if c then xs @ [i] else xs)"

definition vatRate :: jsnum where
  "vatRate = rnd (17 / 100)"

definition supportedCurrencies :: "jsval list" where
  "supportedCurrencies = [JStr (ascii ''ILS''), JStr (ascii ''USD''), JStr (ascii ''EUR'')]"

definition penalty :: "Issue \<Rightarrow> int" where
  "penalty it = (if severity it = HIGH then 25 else if severity it = MED then 12 else 5)"

text \<open>
  \<^verbatim>\<open>validateInvoiceLocally(inv)\<close>, statement by statement; the parameter is \<open>invoice\<close>
  here. A \<^verbatim>\<open>TypeError\<close> thrown by a step is the result \<open>Inl TypeError\<close>, and the steps
  after it do not run. The arithmetic block reads \<^verbatim>\<open>inv.total\<close>, which throws on \<^verbatim>\<open>null\<close>
  and \<^verbatim>\<open>undefined\<close>, and reads \<^verbatim>\<open>inv.vat\<close> only when the total is a number; inside the
  block \<^verbatim>\<open>Number(x)\<close> is applied to numbers only and returns them. The score is computed
  on small integers, which binary64 represents exactly, so it is an \<open>int\<close>.
\<close>

definition validateInvoiceLocally :: "jsval \<Rightarrow> error + Report" where
  "validateInvoiceLocally invoice =
     (let issues = [];
          issues = push (\<not> truthy (opt_get invoice (ascii ''supplierVat'')))
                     (req (ascii ''SUPPLIER_VAT'') HIGH msg_SUPPLIER_VAT fix_SUPPLIER_VAT) issues;
          issues = push (\<not> truthy (opt_get invoice (ascii ''customerVat'')))
                     (req (ascii ''CUSTOMER_VAT'') MED msg_CUSTOMER_VAT fix_CUSTOMER_VAT) issues;
          issues = push (\<not> truthy (opt_get invoice (ascii ''date'')))
                     (req (ascii ''DATE'') MED msg_DATE fix_DATE) issues;
          issues = push (nullish (opt_get invoice (ascii ''total'')))
                     (req (ascii ''TOTAL'') HIGH msg_TOTAL fix_TOTAL) issues;
          issues = push (nullish (opt_get invoice (ascii ''vat'')))
                     (req (ascii ''VAT'') MED msg_VAT fix_VAT) issues
      in
      ebind (guarded invoice (ascii ''supplierVat'')
               (\<lambda>v. ebind (js_String v) (\<lambda>s. Inr (\<not> nine_digits s)))) (\<lambda>c.
      let issues = push c
             (req (ascii ''SUPPLIER_VAT_FMT'') HIGH msg_SUPPLIER_VAT_FMT fix_SUPPLIER_VAT_FMT) issues
      in
      ebind (guarded invoice (ascii ''customerVat'')
               (\<lambda>v. ebind (js_String v) (\<lambda>s. Inr (\<not> nine_digits s)))) (\<lambda>c.
      let issues = push c
             (req (ascii ''CUSTOMER_VAT_FMT'') MED msg_CUSTOMER_VAT_FMT fix_CUSTOMER_VAT_FMT) issues
      in
      ebind (get invoice (ascii ''total'')) (\<lambda>t.
      ebind (case t of JNum a \<Rightarrow> get invoice (ascii ''vat'') | _ \<Rightarrow> Inr JUndefined) (\<lambda>v.
      let issues =
            (case (t, v) of
               (JNum a, JNum b) \<Rightarrow>
                 (let subtotal = js_sub a b;
                      expectedVat =
                        js_div (Math_round (js_mul (js_mul subtotal vatRate) (Fin 100))) (Fin 100);
                      diff = Math_abs (js_sub expectedVat b);
                      issues = push (js_gt diff (Fin 1))
                        (req (ascii ''VAT_MISMATCH'') MED
                           (msg_VAT_MISMATCH_prefix
                              @ ascii (Number_toString (js_mul vatRate (Fin 100))) @ ascii ''%'')
                           fix_VAT_MISMATCH) issues;
                      issues = push (js_le subtotal (Fin 0))
                        (req (ascii ''SUBTOTAL_NEG'') HIGH msg_SUBTOTAL_NEG fix_SUBTOTAL_NEG) issues
                  in issues)
             | _ \<Rightarrow> issues)
      in
      ebind (guarded invoice (ascii ''currency'')
               (\<lambda>v. Inr (\<not> Array_includes supportedCurrencies v))) (\<lambda>c.
      let issues = push c
             (req (ascii ''CURRENCY_UNSUPPORTED'') LOW msg_CURRENCY_UNSUPPORTED
                fix_CURRENCY_UNSUPPORTED) issues
      in
      ebind (guarded invoice (ascii ''invoiceId'')
               (\<lambda>v. ebind (js_String v) (\<lambda>s. Inr (length s < 3)))) (\<lambda>c.
      let issues = push c
             (req (ascii ''INVOICE_ID_WEAK'') LOW msg_INVOICE_ID_WEAK fix_INVOICE_ID_WEAK) issues;
          score = 100 - foldl (\<lambda>acc it. acc + penalty it) 0 issues;
          score = max 0 (min 100 score);
          level = (if 85 \<le> score then GREEN else if 60 \<le> score then YELLOW else RED)
      in Inr \<lparr>level = level, score = score, issues = issues, meta = extractMeta invoice\<rparr>)))))))"

definition sampleInvoice :: jsval where
  "sampleInvoice =
     JObj [(ascii ''supplierVat'', JStr (ascii ''512345679'')),
           (ascii ''customerVat'', JStr (ascii ''598765431'')),
           (ascii ''invoiceId'', JStr (ascii ''INV-2025-00123'')),
           (ascii ''date'', JStr (ascii ''2025-09-12'')),
           (ascii ''currency'', JStr (ascii ''ILS'')),
           (ascii ''vat'', JNum (Fin 170)),
           (ascii ''total'', JNum (Fin 1000))]"

text \<open>The sample without its \<^verbatim>\<open>total\<close>, as the list of its properties.\<close>

definition invoiceWithoutTotal :: "(jsstring \<times> jsval) list" where
  "invoiceWithoutTotal =
     [(ascii ''supplierVat'', JStr (ascii ''512345679'')),
      (ascii ''customerVat'', JStr (ascii ''598765431'')),
      (ascii ''invoiceId'', JStr (ascii ''INV-2025-00123'')),
      (ascii ''date'', JStr (ascii ''2025-09-12'')),
      (ascii ''currency'', JStr (ascii ''ILS'')),
      (ascii ''vat'', JNum (Fin 170))]"

section \<open>The findings as a function of the fields\<close>

text \<open>
  The condition of each rule, on the value of the field it reads. They restate the
  conditions of \<open>validateInvoiceLocally\<close> for a run that does not throw, and serve to
  analyse it: \<open>findings\<close> lists the code and the severity of what such a run reports.
\<close>

definition bad_vat_number :: "jsval \<Rightarrow> bool" where
  "bad_vat_number v =
     (truthy v \<and> (case js_String v of Inr s \<Rightarrow> \<not> nine_digits s | Inl e \<Rightarrow> False))"

definition expected_vat :: "jsnum \<Rightarrow> jsnum \<Rightarrow> jsnum" where
  "expected_vat a b =
     js_div (Math_round (js_mul (js_mul (js_sub a b) vatRate) (Fin 100))) (Fin 100)"

definition vat_mismatch :: "jsval \<Rightarrow> jsval \<Rightarrow> bool" where
  "vat_mismatch t v =
     (case (t, v) of
        (JNum a, JNum b) \<Rightarrow> js_gt (Math_abs (js_sub (expected_vat a b) b)) (Fin 1)
      | _ \<Rightarrow> False)"

definition subtotal_neg :: "jsval \<Rightarrow> jsval \<Rightarrow> bool" where
  "subtotal_neg t v =
     (case (t, v) of (JNum a, JNum b) \<Rightarrow> js_le (js_sub a b) (Fin 0) | _ \<Rightarrow> False)"

definition unsupported_currency :: "jsval \<Rightarrow> bool" where
  "unsupported_currency v = (truthy v \<and> v \<notin> set supportedCurrencies)"

definition weak_id :: "jsval \<Rightarrow> bool" where
  "weak_id v =
     (truthy v \<and> (case js_String v of Inr s \<Rightarrow> length s < 3 | Inl e \<Rightarrow> False))"

definition finding :: "bool \<Rightarrow> string \<Rightarrow> Severity \<Rightarrow> (jsstring \<times> Severity) list" where
  "finding c name s = (if c then [(ascii name, s)] else [])"

definition findings :: "jsval \<Rightarrow> (jsstring \<times> Severity) list" where
  "findings invoice =
     (let sv = opt_get invoice (ascii ''supplierVat'');
          cv = opt_get invoice (ascii ''customerVat'');
          d = opt_get invoice (ascii ''date'');
          t = opt_get invoice (ascii ''total'');
          v = opt_get invoice (ascii ''vat'');
          cur = opt_get invoice (ascii ''currency'');
          iid = opt_get invoice (ascii ''invoiceId'')
      in finding (\<not> truthy sv) ''SUPPLIER_VAT'' HIGH
         @ finding (\<not> truthy cv) ''CUSTOMER_VAT'' MED
         @ finding (\<not> truthy d) ''DATE'' MED
         @ finding (nullish t) ''TOTAL'' HIGH
         @ finding (nullish v) ''VAT'' MED
         @ finding (bad_vat_number sv) ''SUPPLIER_VAT_FMT'' HIGH
         @ finding (bad_vat_number cv) ''CUSTOMER_VAT_FMT'' MED
         @ finding (vat_mismatch t v) ''VAT_MISMATCH'' MED
         @ finding (subtotal_neg t v) ''SUBTOTAL_NEG'' HIGH
         @ finding (unsupported_currency cur) ''CURRENCY_UNSUPPORTED'' LOW
         @ finding (weak_id iid) ''INVOICE_ID_WEAK'' LOW)"

text \<open>What a report shows of its findings, and the codes among them.\<close>

definition reported :: "Report \<Rightarrow> (jsstring \<times> Severity) list" where
  "reported r = map (\<lambda>i. (code i, severity i)) (issues r)"

definition codes :: "Report \<Rightarrow> jsstring set" where
  "codes r = set (map code (issues r))"

text \<open>The penalty of a severity, as the specification tabulates it.\<close>

fun severity_penalty :: "Severity \<Rightarrow> int" where
  "severity_penalty HIGH = 25"
| "severity_penalty MED = 12"
| "severity_penalty LOW = 5"

text \<open>The contribution of a rule to the total penalty: its penalty when it fires.\<close>

definition weight :: "bool \<Rightarrow> int \<Rightarrow> int" where
  "weight c p = (if c then p else 0)"

text \<open>
  The normalizer in the words of the specification: the value of the field when it is
  present and neither \<^verbatim>\<open>null\<close> nor \<^verbatim>\<open>undefined\<close>, else the fallback.
\<close>

definition field_or :: "jsval \<Rightarrow> string \<Rightarrow> jsval \<Rightarrow> jsval" where
  "field_or invoice f fallback =
     (case invoice of
        JObj ps \<Rightarrow>
          (case map_of ps (ascii f) of
             Some v \<Rightarrow> (if v = JNull \<or> v = JUndefined then fallback else v)
           | None \<Rightarrow> fallback)
      | _ \<Rightarrow> fallback)"

section \<open>The arithmetic rule, read two ways\<close>

text \<open>
  The conditions of the arithmetic rule written out on the values, without the operators
  of the model: every operation is the exact one followed by \<open>rnd\<close>, the rate is the
  binary64 value nearest to 0.17, rounding to an integer is \<open>\<lfloor>x + 1/2\<rfloor>\<close>. A result that
  overflows is an infinity, whose distance from the VAT is above 1. With an infinite
  operand the expected VAT is infinite and differs from the VAT unless both amounts are
  the same infinity, where the subtotal is \<open>NaN\<close>; a \<open>NaN\<close> makes both comparisons false.
\<close>

definition binary64_rate :: rat where
  "binary64_rate = 6124895493223875 / 36028797018963968"

definition finite_vat_mismatch :: "rat \<Rightarrow> rat \<Rightarrow> bool" where
  "finite_vat_mismatch a b =
     (case rnd (a - b) of
        Fin s \<Rightarrow>
          (case rnd (s * binary64_rate) of
             Fin p \<Rightarrow>
               (case rnd (p * 100) of
                  Fin q \<Rightarrow>
                    (case rnd (of_int \<lfloor>q + 1 / 2\<rfloor> / 100) of
                       Fin e \<Rightarrow> (case rnd (e - b) of Fin d \<Rightarrow> 1 < \<bar>d\<bar> | _ \<Rightarrow> True)
                     | _ \<Rightarrow> True)
                | _ \<Rightarrow> True)
           | _ \<Rightarrow> True)
      | _ \<Rightarrow> True)"

fun binary64_vat_mismatch :: "jsnum \<Rightarrow> jsnum \<Rightarrow> bool" where
  "binary64_vat_mismatch NaN v = False"
| "binary64_vat_mismatch t NaN = False"
| "binary64_vat_mismatch (Fin a) (Fin b) = finite_vat_mismatch a b"
| "binary64_vat_mismatch t v = (t \<noteq> v)"

fun binary64_subtotal_neg :: "jsnum \<Rightarrow> jsnum \<Rightarrow> bool" where
  "binary64_subtotal_neg NaN v = False"
| "binary64_subtotal_neg t NaN = False"
| "binary64_subtotal_neg (Fin a) (Fin b) =
     (case rnd (a - b) of Fin s \<Rightarrow> s \<le> 0 | NInf \<Rightarrow> True | _ \<Rightarrow> False)"
| "binary64_subtotal_neg PInf v = False"
| "binary64_subtotal_neg NInf v = (v \<noteq> NInf)"
| "binary64_subtotal_neg (Fin a) PInf = True"
| "binary64_subtotal_neg (Fin a) NInf = False"

text \<open>
  The same rule in exact arithmetic, as the specification words it: the subtotal times
  17/100, times 100, rounded to the nearest integer, divided by 100.
\<close>

definition exact_expected_vat :: "rat \<Rightarrow> rat \<Rightarrow> rat" where
  "exact_expected_vat t v = of_int \<lfloor>(t - v) * (17 / 100) * 100 + 1 / 2\<rfloor> / 100"

definition exact_vat_mismatch :: "rat \<Rightarrow> rat \<Rightarrow> bool" where
  "exact_vat_mismatch t v = (1 < \<bar>exact_expected_vat t v - v\<bar>)"

text \<open>The sample with the amounts \<^verbatim>\<open>total: 65.1\<close> and \<^verbatim>\<open>vat: 8.6\<close>.\<close>

definition boundaryInvoice :: jsval where
  "boundaryInvoice =
     JObj [(ascii ''supplierVat'', JStr (ascii ''512345679'')),
           (ascii ''customerVat'', JStr (ascii ''598765431'')),
           (ascii ''invoiceId'', JStr (ascii ''INV-2025-00123'')),
           (ascii ''date'', JStr (ascii ''2025-09-12'')),
           (ascii ''currency'', JStr (ascii ''ILS'')),
           (ascii ''vat'', JNum (rnd (86 / 10))),
           (ascii ''total'', JNum (rnd (651 / 10)))]"

section \<open>Evaluating the model\<close>

text \<open>
  Rewrite rules that let the simplifier compute floors, bit lengths and digits on
  numerals, so that closed instances are evaluated inside the kernel.
\<close>

lemma floor_rat_numeral [simp]:
  "\<lfloor>numeral a / numeral b :: rat\<rfloor> = numeral a div numeral b"
  "\<lfloor>- (numeral a / numeral b) :: rat\<rfloor> = - numeral a div numeral b"
  "\<lfloor>1 / numeral b :: rat\<rfloor> = 1 div numeral b"
  "\<lfloor>- (1 / numeral b) :: rat\<rfloor> = - 1 div numeral b"
  using floor_divide_of_int_eq [of "numeral a" "numeral b", where ?'a = rat]
    floor_divide_of_int_eq [of "- numeral a" "numeral b", where ?'a = rat]
    floor_divide_of_int_eq [of 1 "numeral b", where ?'a = rat]
    floor_divide_of_int_eq [of "- 1" "numeral b", where ?'a = rat]
  by simp_all

lemma ceiling_rat_numeral [simp]:
  "\<lceil>numeral a / numeral b :: rat\<rceil> = - (- numeral a div numeral b)"
  "\<lceil>1 / numeral b :: rat\<rceil> = - (- 1 div numeral b)"
  by (simp_all add: ceiling_def)

lemma bitlen_numeral [simp]:
  "bitlen 1 = 1"
  "bitlen (numeral (Num.Bit0 n)) = bitlen (numeral n) + 1"
  "bitlen (numeral (Num.Bit1 n)) = bitlen (numeral n) + 1"
  by (subst compute_bitlen, simp)+

lemmas rnd_eval = rnd_def ilog2_def pow2_def round_half_even_def Let_def


lemma ascii_Nil [simp]: "ascii [] = []"
  by (simp add: ascii_def)

lemma ascii_Cons [simp]: "ascii (c # cs) = of_char c # ascii cs"
  by (simp add: ascii_def)

lemma digit_char_eval [simp]:
  "digit_char 0 = CHR ''0''" "digit_char 1 = CHR ''1''" "digit_char 2 = CHR ''2''"
  "digit_char 3 = CHR ''3''" "digit_char 4 = CHR ''4''" "digit_char 5 = CHR ''5''"
  "digit_char 6 = CHR ''6''" "digit_char 7 = CHR ''7''" "digit_char 8 = CHR ''8''"
  "digit_char 9 = CHR ''9''"
  by (simp_all add: digit_char_def char_of_def)

lemmas toString_eval = positive_to_string_def shortest_def candidate_def ilog10_def declen_def
  pow10_def digits10.simps

lemma vatRate_value: "vatRate = Fin (6124895493223875 / 36028797018963968)"
  by (simp add: vatRate_def rnd_eval)

lemma vatRate_percent: "Number_toString (js_mul vatRate (Fin 100)) = ''17''"
  by (simp add: vatRate_value toString_eval rnd_eval)

lemmas validate_eval = validateInvoiceLocally_def Let_def push_def guarded_def opt_get_def get_def
  nullish_def ebind_def coalesce_def extractMeta_def nine_digits_def is_digit_def
  Array_includes_def supportedCurrencies_def penalty_def req_def

section \<open>The structure of a run\<close>

lemma reported_push:
  "map (\<lambda>i. (code i, severity i)) (push c (req (ascii n) s m f) xs)
     = map (\<lambda>i. (code i, severity i)) xs @ finding c n s"
  by (simp add: push_def finding_def req_def)

lemma validate_not_nullish:
  assumes "validateInvoiceLocally invoice = Inr r"
  shows "\<not> nullish invoice"
proof
  assume n: "nullish invoice"
  then have g: "\<And>f P. guarded invoice f P = Inr False"
    by (simp add: guarded_def opt_get_def)
  have "get invoice (ascii ''total'') = Inl TypeError"
    using n by (simp add: get_def)
  then have "validateInvoiceLocally invoice = Inl TypeError"
    unfolding validateInvoiceLocally_def Let_def g by (simp add: ebind_def)
  with assms show False by simp
qed


lemma ebind_InrE:
  assumes "ebind m f = Inr r"
  obtains x where "m = Inr x" and "f x = Inr r"
  using assms by (cases m) (simp_all add: ebind_def)

lemma guarded_format:
  assumes "guarded invoice f (\<lambda>v. ebind (js_String v) (\<lambda>s. Inr (\<not> nine_digits s))) = Inr c"
  shows "c = bad_vat_number (opt_get invoice f)"
  using assms
  by (auto simp: guarded_def get_def opt_get_def ebind_def bad_vat_number_def
      split: if_splits sum.splits)

lemma guarded_currency:
  assumes "guarded invoice f (\<lambda>v. Inr (\<not> Array_includes supportedCurrencies v)) = Inr c"
  shows "c = unsupported_currency (opt_get invoice f)"
  using assms
  by (auto simp: guarded_def get_def opt_get_def ebind_def unsupported_currency_def
      Array_includes_def split: if_splits)

lemma guarded_id:
  assumes "guarded invoice f (\<lambda>v. ebind (js_String v) (\<lambda>s. Inr (length s < 3))) = Inr c"
  shows "c = weak_id (opt_get invoice f)"
  using assms
  by (auto simp: guarded_def get_def opt_get_def ebind_def weak_id_def
      split: if_splits sum.splits)


lemma arithmetic_reported:
  "map (\<lambda>i. (code i, severity i))
           (case t of
              JNum a \<Rightarrow>
                (case v of
                   JNum b \<Rightarrow>
                     push (js_le (js_sub a b) (Fin 0)) (req (ascii ''SUBTOTAL_NEG'') HIGH m2 f2)
                       (push (js_gt (Math_abs (js_sub
                          (js_div (Math_round (js_mul (js_mul (js_sub a b) vatRate) (Fin 100)))
                             (Fin 100)) b)) (Fin 1))
                         (req (ascii ''VAT_MISMATCH'') MED m1 f1) xs)
                 | _ \<Rightarrow> xs)
            | _ \<Rightarrow> xs)
         = map (\<lambda>i. (code i, severity i)) xs
           @ finding (vat_mismatch t v) ''VAT_MISMATCH'' MED
           @ finding (subtotal_neg t v) ''SUBTOTAL_NEG'' HIGH"
proof (cases t)
  case t: (JNum a)
  show ?thesis
  proof (cases v)
    case v: (JNum b)
    show ?thesis
      unfolding t v vat_mismatch_def subtotal_neg_def expected_vat_def
      by (simp add: reported_push del: ascii_Cons)
  qed (simp_all add: t vat_mismatch_def subtotal_neg_def finding_def)
qed (simp_all add: vat_mismatch_def subtotal_neg_def finding_def)

lemma arithmetic_operands:
  assumes "\<not> nullish invoice"
    and "get invoice (ascii ''total'') = Inr t"
    and "(case t of JNum a \<Rightarrow> get invoice (ascii ''vat'') | _ \<Rightarrow> Inr JUndefined) = Inr v"
  shows "vat_mismatch t v
           = vat_mismatch (opt_get invoice (ascii ''total'')) (opt_get invoice (ascii ''vat''))"
    and "subtotal_neg t v
           = subtotal_neg (opt_get invoice (ascii ''total'')) (opt_get invoice (ascii ''vat''))"
proof -
  have t: "t = opt_get invoice (ascii ''total'')"
    using assms(1,2) by (simp add: get_def opt_get_def)
  have "(\<exists>a. t = JNum a) \<longrightarrow> v = opt_get invoice (ascii ''vat'')"
    using assms(1,3) by (auto simp: get_def opt_get_def)
  then have "vat_mismatch t v = vat_mismatch t (opt_get invoice (ascii ''vat''))
      \<and> subtotal_neg t v = subtotal_neg t (opt_get invoice (ascii ''vat''))"
    by (cases t) (auto simp: vat_mismatch_def subtotal_neg_def)
  then show "vat_mismatch t v
           = vat_mismatch (opt_get invoice (ascii ''total'')) (opt_get invoice (ascii ''vat''))"
    and "subtotal_neg t v
           = subtotal_neg (opt_get invoice (ascii ''total'')) (opt_get invoice (ascii ''vat''))"
    using t by simp_all
qed

lemma validate_reported:
  assumes "validateInvoiceLocally invoice = Inr r"
  shows "reported r = findings invoice"
proof -
  have nn: "\<not> nullish invoice"
    using assms by (rule validate_not_nullish)
  show ?thesis
    using assms unfolding validateInvoiceLocally_def Let_def
    apply (elim ebind_InrE)
    apply (drule guarded_format guarded_currency guarded_id)+
    apply (frule (1) arithmetic_operands(1) [OF nn])
    apply (frule (1) arithmetic_operands(2) [OF nn])
    apply (clarsimp simp: reported_def findings_def reported_push arithmetic_reported Let_def
        simp del: ascii_Cons split del: if_split)
    done
qed


subsection \<open>When the validator returns\<close>

text \<open>
  The validator returns a report on every value other than \<^verbatim>\<open>null\<close> and \<^verbatim>\<open>undefined\<close>
  whose truthy fields have a string; numbers, strings and booleans always have one.
\<close>

lemma js_String_primitive:
  assumes "\<forall>xs. v \<noteq> JArr xs" and "\<forall>ps. v \<noteq> JObj ps"
  shows "\<exists>s. js_String v = Inr s"
  using assms by (cases v) simp_all

lemma guarded_string_returns:
  assumes "\<not> nullish invoice"
    and "truthy (opt_get invoice f) \<longrightarrow> (\<exists>s. js_String (opt_get invoice f) = Inr s)"
  shows "\<exists>c. guarded invoice f (\<lambda>v. ebind (js_String v) (\<lambda>s. Inr (Q s))) = Inr c"
  using assms by (auto simp: guarded_def get_def opt_get_def ebind_def)

lemma validate_returns:
  assumes n: "\<not> nullish invoice"
    and s: "\<And>f. truthy (opt_get invoice f) \<longrightarrow> (\<exists>s. js_String (opt_get invoice f) = Inr s)"
  shows "\<exists>r. validateInvoiceLocally invoice = Inr r"
proof -
  obtain c1 where c1: "guarded invoice (ascii ''supplierVat'')
      (\<lambda>v. ebind (js_String v) (\<lambda>s. Inr (\<not> nine_digits s))) = Inr c1"
    using guarded_string_returns
      [where f = "ascii ''supplierVat''" and Q = "\<lambda>s. \<not> nine_digits s", OF n s]
    by blast
  obtain c2 where c2: "guarded invoice (ascii ''customerVat'')
      (\<lambda>v. ebind (js_String v) (\<lambda>s. Inr (\<not> nine_digits s))) = Inr c2"
    using guarded_string_returns
      [where f = "ascii ''customerVat''" and Q = "\<lambda>s. \<not> nine_digits s", OF n s]
    by blast
  obtain c3 where c3: "guarded invoice (ascii ''invoiceId'')
      (\<lambda>v. ebind (js_String v) (\<lambda>s. Inr (length s < 3))) = Inr c3"
    using guarded_string_returns
      [where f = "ascii ''invoiceId''" and Q = "\<lambda>s. length s < 3", OF n s]
    by blast
  have "\<exists>c. guarded invoice (ascii ''currency'')
      (\<lambda>v. Inr (\<not> Array_includes supportedCurrencies v)) = Inr c"
    using n by (auto simp: guarded_def get_def ebind_def simp del: ascii_Cons)
  then obtain c4 where c4: "guarded invoice (ascii ''currency'')
      (\<lambda>v. Inr (\<not> Array_includes supportedCurrencies v)) = Inr c4"
    by blast
  have g: "get invoice f = Inr (opt_get invoice f)" for f
    using n by (simp add: get_def opt_get_def)
  have v: "\<exists>x. (case t of JNum a \<Rightarrow> Inr (opt_get invoice (ascii ''vat'')) | _ \<Rightarrow> Inr JUndefined)
      = (Inr x :: error + jsval)" for t
    by (cases t) simp_all
  then obtain x where x: "(case opt_get invoice (ascii ''total'') of
        JNum a \<Rightarrow> Inr (opt_get invoice (ascii ''vat'')) | _ \<Rightarrow> Inr JUndefined)
      = (Inr x :: error + jsval)"
    by blast
  show ?thesis
    unfolding validateInvoiceLocally_def Let_def c1 c2 c3 c4 g
    by (simp only: ebind_def sum.case x) blast
qed


subsection \<open>Score and penalties\<close>

lemma validate_report:
  assumes "validateInvoiceLocally invoice = Inr r"
  shows "score r = max 0 (min 100 (100 - foldl (\<lambda>acc it. acc + penalty it) 0 (issues r)))
    \<and> level r = (if 85 \<le> score r then GREEN else if 60 \<le> score r then YELLOW else RED)
    \<and> meta r = extractMeta invoice"
  using assms unfolding validateInvoiceLocally_def Let_def
  apply (elim ebind_InrE)
  apply (erule sum.inject [THEN iffD1, THEN subst])
  apply (simp only: Report.simps simp_thms)
  done

lemma validate_score:
  assumes "validateInvoiceLocally invoice = Inr r"
  shows "score r = max 0 (min 100 (100 - foldl (\<lambda>acc it. acc + penalty it) 0 (issues r)))"
    and "level r = (if 85 \<le> score r then GREEN else if 60 \<le> score r then YELLOW else RED)"
    and "meta r = extractMeta invoice"
  using validate_report [OF assms] by blast+

lemma penalty_severity: "penalty it = severity_penalty (severity it)"
  by (cases "severity it") (simp_all add: penalty_def)

lemma foldl_penalty:
  "foldl (\<lambda>acc it. acc + penalty it) a xs = a + (\<Sum>i\<leftarrow>xs. severity_penalty (severity i))"
  by (induction xs arbitrary: a) (simp_all add: penalty_severity)

lemma reported_penalty:
  "(\<Sum>i\<leftarrow>issues r. severity_penalty (severity i)) = (\<Sum>p\<leftarrow>reported r. severity_penalty (snd p))"
  by (simp add: reported_def comp_def)

lemma finding_penalty [simp]:
  "(\<Sum>p\<leftarrow>finding c n s. severity_penalty (snd p)) = weight c (severity_penalty s)"
  by (simp add: finding_def weight_def)

lemma findings_penalty:
  "(\<Sum>p\<leftarrow>findings invoice. severity_penalty (snd p)) =
     weight (\<not> truthy (opt_get invoice (ascii ''supplierVat''))) 25
     + weight (\<not> truthy (opt_get invoice (ascii ''customerVat''))) 12
     + weight (\<not> truthy (opt_get invoice (ascii ''date''))) 12
     + weight (nullish (opt_get invoice (ascii ''total''))) 25
     + weight (nullish (opt_get invoice (ascii ''vat''))) 12
     + weight (bad_vat_number (opt_get invoice (ascii ''supplierVat''))) 25
     + weight (bad_vat_number (opt_get invoice (ascii ''customerVat''))) 12
     + weight (vat_mismatch (opt_get invoice (ascii ''total'')) (opt_get invoice (ascii ''vat''))) 12
     + weight (subtotal_neg (opt_get invoice (ascii ''total'')) (opt_get invoice (ascii ''vat''))) 25
     + weight (unsupported_currency (opt_get invoice (ascii ''currency''))) 5
     + weight (weak_id (opt_get invoice (ascii ''invoiceId''))) 5"
  by (simp add: findings_def Let_def del: ascii_Cons)

lemma vat_number_group:
  "weight (\<not> truthy v) p + weight (bad_vat_number v) p \<le> p" "0 \<le> weight (\<not> truthy v) p + weight (bad_vat_number v) p" if "0 \<le> p"
  using that by (auto simp: weight_def bad_vat_number_def)

lemma amounts_group:
  "weight (nullish t) 25 + weight (nullish v) 12 + weight (vat_mismatch t v) 12
     + weight (subtotal_neg t v) 25 \<le> 37"
  "0 \<le> weight (nullish t) 25 + weight (nullish v) 12 + weight (vat_mismatch t v) 12
     + weight (subtotal_neg t v) 25"
  by (cases t; cases v; simp add: weight_def nullish_def vat_mismatch_def subtotal_neg_def)+

lemma weight_bounds: "0 \<le> p \<Longrightarrow> 0 \<le> weight c p" "0 \<le> p \<Longrightarrow> weight c p \<le> p"
  by (simp_all add: weight_def)

lemma findings_penalty_bounds:
  "0 \<le> (\<Sum>p\<leftarrow>findings invoice. severity_penalty (snd p))"
  "(\<Sum>p\<leftarrow>findings invoice. severity_penalty (snd p)) \<le> 96"
proof -
  let ?sv = "opt_get invoice (ascii ''supplierVat'')"
  let ?cv = "opt_get invoice (ascii ''customerVat'')"
  let ?t = "opt_get invoice (ascii ''total'')"
  let ?v = "opt_get invoice (ascii ''vat'')"
  note a = vat_number_group [of 25 ?sv] vat_number_group [of 12 ?cv] amounts_group [of ?t ?v]
    weight_bounds [of 12 "\<not> truthy (opt_get invoice (ascii ''date''))"]
    weight_bounds [of 5 "unsupported_currency (opt_get invoice (ascii ''currency''))"]
    weight_bounds [of 5 "weak_id (opt_get invoice (ascii ''invoiceId''))"]
  show "0 \<le> (\<Sum>p\<leftarrow>findings invoice. severity_penalty (snd p))"
    unfolding findings_penalty using a by linarith
  show "(\<Sum>p\<leftarrow>findings invoice. severity_penalty (snd p)) \<le> 96"
    unfolding findings_penalty using a by linarith
qed

lemma validate_penalty:
  assumes "validateInvoiceLocally invoice = Inr r"
  shows "score r = 100 - (\<Sum>i\<leftarrow>issues r. severity_penalty (severity i))"
    and "(\<Sum>i\<leftarrow>issues r. severity_penalty (severity i))
           = (\<Sum>p\<leftarrow>findings invoice. severity_penalty (snd p))"
proof -
  show e: "(\<Sum>i\<leftarrow>issues r. severity_penalty (severity i))
           = (\<Sum>p\<leftarrow>findings invoice. severity_penalty (snd p))"
    using validate_reported [OF assms] by (simp add: reported_penalty)
  show "score r = 100 - (\<Sum>i\<leftarrow>issues r. severity_penalty (severity i))"
    using validate_score(1) [OF assms] findings_penalty_bounds [of invoice]
    by (simp add: foldl_penalty e)
qed

subsection \<open>The codes of the findings\<close>

lemma finding_set:
  "set (finding c n s) = (if c then {(ascii n, s)} else {})"
  by (simp add: finding_def)

lemma codes_reported: "codes r = fst ` set (reported r)"
  by (auto simp: codes_def reported_def image_iff)

lemma findings_set:
  "set (findings invoice) =
     (if \<not> truthy (opt_get invoice (ascii ''supplierVat'')) then {(ascii ''SUPPLIER_VAT'', HIGH)} else {})
     \<union> (if \<not> truthy (opt_get invoice (ascii ''customerVat'')) then {(ascii ''CUSTOMER_VAT'', MED)} else {})
     \<union> (if \<not> truthy (opt_get invoice (ascii ''date'')) then {(ascii ''DATE'', MED)} else {})
     \<union> (if nullish (opt_get invoice (ascii ''total'')) then {(ascii ''TOTAL'', HIGH)} else {})
     \<union> (if nullish (opt_get invoice (ascii ''vat'')) then {(ascii ''VAT'', MED)} else {})
     \<union> (if bad_vat_number (opt_get invoice (ascii ''supplierVat''))
          then {(ascii ''SUPPLIER_VAT_FMT'', HIGH)} else {})
     \<union> (if bad_vat_number (opt_get invoice (ascii ''customerVat''))
          then {(ascii ''CUSTOMER_VAT_FMT'', MED)} else {})
     \<union> (if vat_mismatch (opt_get invoice (ascii ''total'')) (opt_get invoice (ascii ''vat''))
          then {(ascii ''VAT_MISMATCH'', MED)} else {})
     \<union> (if subtotal_neg (opt_get invoice (ascii ''total'')) (opt_get invoice (ascii ''vat''))
          then {(ascii ''SUBTOTAL_NEG'', HIGH)} else {})
     \<union> (if unsupported_currency (opt_get invoice (ascii ''currency''))
          then {(ascii ''CURRENCY_UNSUPPORTED'', LOW)} else {})
     \<union> (if weak_id (opt_get invoice (ascii ''invoiceId''))
          then {(ascii ''INVOICE_ID_WEAK'', LOW)} else {})"
  unfolding findings_def Let_def set_append finding_set by (simp only: Un_assoc)

lemma in_if_singleton: "x \<in> (if c then {y} else {}) \<longleftrightarrow> c \<and> x = y"
  by simp

lemma fst_if_singleton: "x \<in> fst ` (if c then {(y, s)} else {}) \<longleftrightarrow> c \<and> x = y"
  by simp

lemma findings_code_iff:
  "ascii ''SUPPLIER_VAT'' \<in> fst ` set (findings invoice)
     \<longleftrightarrow> \<not> truthy (opt_get invoice (ascii ''supplierVat''))"
  "ascii ''CUSTOMER_VAT'' \<in> fst ` set (findings invoice)
     \<longleftrightarrow> \<not> truthy (opt_get invoice (ascii ''customerVat''))"
  "ascii ''DATE'' \<in> fst ` set (findings invoice) \<longleftrightarrow> \<not> truthy (opt_get invoice (ascii ''date''))"
  "ascii ''TOTAL'' \<in> fst ` set (findings invoice) \<longleftrightarrow> nullish (opt_get invoice (ascii ''total''))"
  "ascii ''VAT'' \<in> fst ` set (findings invoice) \<longleftrightarrow> nullish (opt_get invoice (ascii ''vat''))"
  "ascii ''SUPPLIER_VAT_FMT'' \<in> fst ` set (findings invoice)
     \<longleftrightarrow> bad_vat_number (opt_get invoice (ascii ''supplierVat''))"
  "ascii ''CUSTOMER_VAT_FMT'' \<in> fst ` set (findings invoice)
     \<longleftrightarrow> bad_vat_number (opt_get invoice (ascii ''customerVat''))"
  "ascii ''VAT_MISMATCH'' \<in> fst ` set (findings invoice)
     \<longleftrightarrow> vat_mismatch (opt_get invoice (ascii ''total'')) (opt_get invoice (ascii ''vat''))"
  "ascii ''SUBTOTAL_NEG'' \<in> fst ` set (findings invoice)
     \<longleftrightarrow> subtotal_neg (opt_get invoice (ascii ''total'')) (opt_get invoice (ascii ''vat''))"
  "ascii ''CURRENCY_UNSUPPORTED'' \<in> fst ` set (findings invoice)
     \<longleftrightarrow> unsupported_currency (opt_get invoice (ascii ''currency''))"
  "ascii ''INVOICE_ID_WEAK'' \<in> fst ` set (findings invoice)
     \<longleftrightarrow> weak_id (opt_get invoice (ascii ''invoiceId''))"
  unfolding findings_set image_Un Un_iff fst_if_singleton by simp_all

lemma findings_codes:
  "c \<in> fst ` set (findings invoice) \<longleftrightarrow>
     (\<not> truthy (opt_get invoice (ascii ''supplierVat'')) \<and> c = ascii ''SUPPLIER_VAT'')
     \<or> (\<not> truthy (opt_get invoice (ascii ''customerVat'')) \<and> c = ascii ''CUSTOMER_VAT'')
     \<or> (\<not> truthy (opt_get invoice (ascii ''date'')) \<and> c = ascii ''DATE'')
     \<or> (nullish (opt_get invoice (ascii ''total'')) \<and> c = ascii ''TOTAL'')
     \<or> (nullish (opt_get invoice (ascii ''vat'')) \<and> c = ascii ''VAT'')
     \<or> (bad_vat_number (opt_get invoice (ascii ''supplierVat'')) \<and> c = ascii ''SUPPLIER_VAT_FMT'')
     \<or> (bad_vat_number (opt_get invoice (ascii ''customerVat'')) \<and> c = ascii ''CUSTOMER_VAT_FMT'')
     \<or> (vat_mismatch (opt_get invoice (ascii ''total'')) (opt_get invoice (ascii ''vat''))
          \<and> c = ascii ''VAT_MISMATCH'')
     \<or> (subtotal_neg (opt_get invoice (ascii ''total'')) (opt_get invoice (ascii ''vat''))
          \<and> c = ascii ''SUBTOTAL_NEG'')
     \<or> (unsupported_currency (opt_get invoice (ascii ''currency''))
          \<and> c = ascii ''CURRENCY_UNSUPPORTED'')
     \<or> (weak_id (opt_get invoice (ascii ''invoiceId'')) \<and> c = ascii ''INVOICE_ID_WEAK'')"
  unfolding findings_def Let_def set_append finding_set image_Un Un_iff fst_if_singleton
  by (simp only: disj_assoc)

lemma opt_get_replaced:
  "opt_get (JObj ((f, v) # ps)) g = (if g = f then v else opt_get (JObj ps) g)"
  by (simp add: opt_get_def nullish_def)

lemma weight_mono: "(c' \<longrightarrow> c) \<Longrightarrow> 0 \<le> p \<Longrightarrow> weight c' p \<le> weight c p"
  by (simp add: weight_def)

lemma vat_number_fixed:
  assumes "\<not> truthy u \<or> bad_vat_number u" and "0 \<le> p"
  shows "weight (\<not> truthy w) p + weight (bad_vat_number w) p
           \<le> weight (\<not> truthy u) p + weight (bad_vat_number u) p"
  using assms by (auto simp: weight_def bad_vat_number_def)


lemma findings_pair_iff:
  "(ascii ''VAT_MISMATCH'', MED) \<in> set (findings invoice)
     \<longleftrightarrow> vat_mismatch (opt_get invoice (ascii ''total'')) (opt_get invoice (ascii ''vat''))"
  "(ascii ''SUBTOTAL_NEG'', HIGH) \<in> set (findings invoice)
     \<longleftrightarrow> subtotal_neg (opt_get invoice (ascii ''total'')) (opt_get invoice (ascii ''vat''))"
  unfolding findings_set Un_iff in_if_singleton by simp_all

subsection \<open>The arithmetic rule on the values\<close>

lemma rnd_not_NaN [simp]: "rnd q \<noteq> NaN"
  by (simp add: rnd_def Let_def)

lemma vatRate_rate: "vatRate = Fin binary64_rate" "0 < binary64_rate" "binary64_rate \<noteq> 0"
  by (simp_all add: vatRate_value binary64_rate_def)

lemma vat_mismatch_binary64:
  "vat_mismatch (JNum t) (JNum v) = binary64_vat_mismatch t v"
proof (cases t)
  case t: (Fin a)
  show ?thesis
  proof (cases v)
    case v: (Fin b)
    show ?thesis
      unfolding t v
      by (auto simp: vat_mismatch_def expected_vat_def finite_vat_mismatch_def vatRate_rate js_gt_def
          split: jsnum.splits)
  qed (simp_all add: t vat_mismatch_def expected_vat_def vatRate_rate js_gt_def)
next
  case PInf
  then show ?thesis
    by (cases v) (simp_all add: vat_mismatch_def expected_vat_def vatRate_rate js_gt_def)
next
  case NInf
  then show ?thesis
    by (cases v) (simp_all add: vat_mismatch_def expected_vat_def vatRate_rate js_gt_def)
next
  case NaN
  then show ?thesis
    by (simp add: vat_mismatch_def expected_vat_def js_gt_def)
qed

lemma subtotal_neg_binary64:
  "subtotal_neg (JNum t) (JNum v) = binary64_subtotal_neg t v"
  by (cases t; cases v) (auto simp: subtotal_neg_def js_le_def split: jsnum.splits)


subsection \<open>Replacing a field\<close>

lemma penalty_subset:
  assumes "fst ` set (findings j) \<subseteq> fst ` set (findings i)"
  shows "(\<Sum>p\<leftarrow>findings j. severity_penalty (snd p)) \<le> (\<Sum>p\<leftarrow>findings i. severity_penalty (snd p))"
proof -
  have m: "ascii n \<in> fst ` set (findings j) \<longrightarrow> ascii n \<in> fst ` set (findings i)" for n
    using assms by blast
  note ms = m [of "''SUPPLIER_VAT''"] m [of "''CUSTOMER_VAT''"] m [of "''DATE''"] m [of "''TOTAL''"]
    m [of "''VAT''"] m [of "''SUPPLIER_VAT_FMT''"] m [of "''CUSTOMER_VAT_FMT''"]
    m [of "''VAT_MISMATCH''"] m [of "''SUBTOTAL_NEG''"] m [of "''CURRENCY_UNSUPPORTED''"]
    m [of "''INVOICE_ID_WEAK''"]
  show ?thesis
    unfolding findings_penalty
    by (intro add_mono weight_mono ms [unfolded findings_code_iff]) simp_all
qed

lemma penalty_other_field:
  assumes c: "c \<in> fst ` set (findings (JObj ps))"
      "c \<notin> fst ` set (findings (JObj ((f, v) # ps)))"
    and f: "f \<noteq> ascii ''total''" "f \<noteq> ascii ''vat''"
  shows "(\<Sum>p\<leftarrow>findings (JObj ((f, v) # ps)). severity_penalty (snd p))
           \<le> (\<Sum>p\<leftarrow>findings (JObj ps). severity_penalty (snd p))"
proof -
  let ?i = "JObj ps" and ?j = "JObj ((f, v) # ps)"
  have tv: "opt_get ?j (ascii ''total'') = opt_get ?i (ascii ''total'')"
    "opt_get ?j (ascii ''vat'') = opt_get ?i (ascii ''vat'')"
    using f by (simp_all add: opt_get_replaced del: ascii_Cons)
  consider (sv) "f = ascii ''supplierVat''" | (cv) "f = ascii ''customerVat''"
    | (date) "f = ascii ''date''" | (cur) "f = ascii ''currency''"
    | (iid) "f = ascii ''invoiceId''"
    | (other) "f \<noteq> ascii ''supplierVat''" "f \<noteq> ascii ''customerVat''" "f \<noteq> ascii ''date''"
        "f \<noteq> ascii ''currency''" "f \<noteq> ascii ''invoiceId''"
    by blast
  then show ?thesis
  proof cases
    case sv
    have og: "opt_get ?j (ascii ''supplierVat'') = v"
      "opt_get ?j (ascii ''customerVat'') = opt_get ?i (ascii ''customerVat'')"
      "opt_get ?j (ascii ''date'') = opt_get ?i (ascii ''date'')"
      "opt_get ?j (ascii ''currency'') = opt_get ?i (ascii ''currency'')"
      "opt_get ?j (ascii ''invoiceId'') = opt_get ?i (ascii ''invoiceId'')"
      unfolding sv opt_get_replaced by simp_all
    have "\<not> truthy (opt_get ?i (ascii ''supplierVat''))
        \<or> bad_vat_number (opt_get ?i (ascii ''supplierVat''))"
      using c unfolding findings_codes og tv by blast
    from vat_number_fixed [OF this, of 25 v] show ?thesis
      unfolding findings_penalty og tv by simp
  next
    case cv
    have og: "opt_get ?j (ascii ''customerVat'') = v"
      "opt_get ?j (ascii ''supplierVat'') = opt_get ?i (ascii ''supplierVat'')"
      "opt_get ?j (ascii ''date'') = opt_get ?i (ascii ''date'')"
      "opt_get ?j (ascii ''currency'') = opt_get ?i (ascii ''currency'')"
      "opt_get ?j (ascii ''invoiceId'') = opt_get ?i (ascii ''invoiceId'')"
      unfolding cv opt_get_replaced by simp_all
    have "\<not> truthy (opt_get ?i (ascii ''customerVat''))
        \<or> bad_vat_number (opt_get ?i (ascii ''customerVat''))"
      using c unfolding findings_codes og tv by blast
    from vat_number_fixed [OF this, of 12 v] show ?thesis
      unfolding findings_penalty og tv by simp
  next
    case date
    have og: "opt_get ?j (ascii ''date'') = v"
      "opt_get ?j (ascii ''supplierVat'') = opt_get ?i (ascii ''supplierVat'')"
      "opt_get ?j (ascii ''customerVat'') = opt_get ?i (ascii ''customerVat'')"
      "opt_get ?j (ascii ''currency'') = opt_get ?i (ascii ''currency'')"
      "opt_get ?j (ascii ''invoiceId'') = opt_get ?i (ascii ''invoiceId'')"
      unfolding date opt_get_replaced by simp_all
    have "\<not> truthy (opt_get ?i (ascii ''date''))"
      using c unfolding findings_codes og tv by blast
    then have "weight (\<not> truthy v) 12 \<le> weight (\<not> truthy (opt_get ?i (ascii ''date''))) 12"
      by (simp add: weight_def)
    then show ?thesis
      unfolding findings_penalty og tv by simp
  next
    case cur
    have og: "opt_get ?j (ascii ''currency'') = v"
      "opt_get ?j (ascii ''supplierVat'') = opt_get ?i (ascii ''supplierVat'')"
      "opt_get ?j (ascii ''customerVat'') = opt_get ?i (ascii ''customerVat'')"
      "opt_get ?j (ascii ''date'') = opt_get ?i (ascii ''date'')"
      "opt_get ?j (ascii ''invoiceId'') = opt_get ?i (ascii ''invoiceId'')"
      unfolding cur opt_get_replaced by simp_all
    have "unsupported_currency (opt_get ?i (ascii ''currency''))"
      using c unfolding findings_codes og tv by blast
    then have "weight (unsupported_currency v) 5
        \<le> weight (unsupported_currency (opt_get ?i (ascii ''currency''))) 5"
      by (simp add: weight_def)
    then show ?thesis
      unfolding findings_penalty og tv by simp
  next
    case iid
    have og: "opt_get ?j (ascii ''invoiceId'') = v"
      "opt_get ?j (ascii ''supplierVat'') = opt_get ?i (ascii ''supplierVat'')"
      "opt_get ?j (ascii ''customerVat'') = opt_get ?i (ascii ''customerVat'')"
      "opt_get ?j (ascii ''date'') = opt_get ?i (ascii ''date'')"
      "opt_get ?j (ascii ''currency'') = opt_get ?i (ascii ''currency'')"
      unfolding iid opt_get_replaced by simp_all
    have "weak_id (opt_get ?i (ascii ''invoiceId''))"
      using c unfolding findings_codes og tv by blast
    then have "weight (weak_id v) 5 \<le> weight (weak_id (opt_get ?i (ascii ''invoiceId''))) 5"
      by (simp add: weight_def)
    then show ?thesis
      unfolding findings_penalty og tv by simp
  next
    case other
    have og: "opt_get ?j (ascii ''invoiceId'') = opt_get ?i (ascii ''invoiceId'')"
      "opt_get ?j (ascii ''supplierVat'') = opt_get ?i (ascii ''supplierVat'')"
      "opt_get ?j (ascii ''customerVat'') = opt_get ?i (ascii ''customerVat'')"
      "opt_get ?j (ascii ''date'') = opt_get ?i (ascii ''date'')"
      "opt_get ?j (ascii ''currency'') = opt_get ?i (ascii ''currency'')"
      using other by (simp_all add: opt_get_replaced del: ascii_Cons)
    have False
      using c unfolding findings_codes og tv by blast
    then show ?thesis ..
  qed
qed

section \<open>Runs evaluated\<close>

lemma sample_arith:
  "js_gt (Math_abs (js_sub (js_div (Math_round (js_mul (js_mul (js_sub (Fin 1000) (Fin 170)) vatRate)
      (Fin 100))) (Fin 100)) (Fin 170))) (Fin 1)"
  "\<not> js_le (js_sub (Fin 1000) (Fin 170)) (Fin 0)"
  by (simp_all add: vatRate_value rnd_eval js_gt_def js_le_def)

lemma sample_eval:
  "validateInvoiceLocally sampleInvoice =
     Inr \<lparr>level = GREEN, score = 88,
          issues = [req (ascii ''VAT_MISMATCH'') MED (msg_VAT_MISMATCH_prefix @ ascii ''17%'')
                      fix_VAT_MISMATCH],
          meta = \<lparr>supplierVat = JStr (ascii ''512345679''),
                   customerVat = JStr (ascii ''598765431''),
                   total = JNum (Fin 1000), vat = JNum (Fin 170),
                   date = JStr (ascii ''2025-09-12''), currency = JStr (ascii ''ILS'')\<rparr>\<rparr>"
  by (simp add: sampleInvoice_def validate_eval sample_arith vatRate_percent del: js_sub.simps)

lemma empty_eval:
  "validateInvoiceLocally (JObj []) =
     Inr \<lparr>level = RED, score = 14,
          issues = [req (ascii ''SUPPLIER_VAT'') HIGH msg_SUPPLIER_VAT fix_SUPPLIER_VAT,
                    req (ascii ''CUSTOMER_VAT'') MED msg_CUSTOMER_VAT fix_CUSTOMER_VAT,
                    req (ascii ''DATE'') MED msg_DATE fix_DATE,
                    req (ascii ''TOTAL'') HIGH msg_TOTAL fix_TOTAL,
                    req (ascii ''VAT'') MED msg_VAT fix_VAT],
          meta = \<lparr>supplierVat = JStr [], customerVat = JStr [], total = JStr [], vat = JStr [],
                   date = JStr [], currency = JStr (ascii ''ILS'')\<rparr>\<rparr>"
  by (simp add: validate_eval)

lemma worst_eval:
  "validateInvoiceLocally
     (JObj [(ascii ''currency'', JStr (ascii ''GBP'')), (ascii ''invoiceId'', JStr (ascii ''AB''))]) =
     Inr \<lparr>level = RED, score = 4,
          issues = [req (ascii ''SUPPLIER_VAT'') HIGH msg_SUPPLIER_VAT fix_SUPPLIER_VAT,
                    req (ascii ''CUSTOMER_VAT'') MED msg_CUSTOMER_VAT fix_CUSTOMER_VAT,
                    req (ascii ''DATE'') MED msg_DATE fix_DATE,
                    req (ascii ''TOTAL'') HIGH msg_TOTAL fix_TOTAL,
                    req (ascii ''VAT'') MED msg_VAT fix_VAT,
                    req (ascii ''CURRENCY_UNSUPPORTED'') LOW msg_CURRENCY_UNSUPPORTED
                      fix_CURRENCY_UNSUPPORTED,
                    req (ascii ''INVOICE_ID_WEAK'') LOW msg_INVOICE_ID_WEAK fix_INVOICE_ID_WEAK],
          meta = \<lparr>supplierVat = JStr [], customerVat = JStr [], total = JStr [], vat = JStr [],
                   date = JStr [], currency = JStr (ascii ''GBP'')\<rparr>\<rparr>"
  by (simp add: validate_eval)

lemma number_string_9: "Number_toString (Fin 123456789) = ''123456789''"
  by (simp add: toString_eval rnd_eval)

lemma numeric_vat_eval:
  "validateInvoiceLocally
     (JObj [(ascii ''supplierVat'', JNum (Fin 123456789)),
            (ascii ''customerVat'', JArr [JNum (Fin 123456789)])]) =
     Inr \<lparr>level = RED, score = 51,
          issues = [req (ascii ''DATE'') MED msg_DATE fix_DATE,
                    req (ascii ''TOTAL'') HIGH msg_TOTAL fix_TOTAL,
                    req (ascii ''VAT'') MED msg_VAT fix_VAT],
          meta = \<lparr>supplierVat = JNum (Fin 123456789),
                   customerVat = JArr [JNum (Fin 123456789)], total = JStr [], vat = JStr [],
                   date = JStr [], currency = JStr (ascii ''ILS'')\<rparr>\<rparr>"
  by (simp add: validate_eval number_string_9 del: Number_toString.simps)

lemma without_total_arith:
  "js_gt (Math_abs (js_sub (js_div (Math_round (js_mul (js_mul (js_sub (Fin 100) (Fin 170)) vatRate)
      (Fin 100))) (Fin 100)) (Fin 170))) (Fin 1)"
  "js_le (js_sub (Fin 100) (Fin 170)) (Fin 0)"
  by (simp_all add: vatRate_value rnd_eval js_gt_def js_le_def)

lemma without_total_eval:
  "validateInvoiceLocally (JObj invoiceWithoutTotal) =
     Inr \<lparr>level = YELLOW, score = 75,
          issues = [req (ascii ''TOTAL'') HIGH msg_TOTAL fix_TOTAL],
          meta = \<lparr>supplierVat = JStr (ascii ''512345679''),
                   customerVat = JStr (ascii ''598765431''),
                   total = JStr [], vat = JNum (Fin 170),
                   date = JStr (ascii ''2025-09-12''), currency = JStr (ascii ''ILS'')\<rparr>\<rparr>"
  by (simp add: invoiceWithoutTotal_def validate_eval)

lemma total_100_eval:
  "validateInvoiceLocally (JObj ((ascii ''total'', JNum (Fin 100)) # invoiceWithoutTotal)) =
     Inr \<lparr>level = YELLOW, score = 63,
          issues = [req (ascii ''VAT_MISMATCH'') MED (msg_VAT_MISMATCH_prefix @ ascii ''17%'')
                      fix_VAT_MISMATCH,
                    req (ascii ''SUBTOTAL_NEG'') HIGH msg_SUBTOTAL_NEG fix_SUBTOTAL_NEG],
          meta = \<lparr>supplierVat = JStr (ascii ''512345679''),
                   customerVat = JStr (ascii ''598765431''),
                   total = JNum (Fin 100), vat = JNum (Fin 170),
                   date = JStr (ascii ''2025-09-12''), currency = JStr (ascii ''ILS'')\<rparr>\<rparr>"
  by (simp add: invoiceWithoutTotal_def validate_eval without_total_arith vatRate_percent
      del: js_sub.simps)

lemma total_string_eval:
  "validateInvoiceLocally (JObj ((ascii ''total'', JStr (ascii ''1000'')) # invoiceWithoutTotal)) =
     Inr \<lparr>level = GREEN, score = 100, issues = [],
          meta = \<lparr>supplierVat = JStr (ascii ''512345679''),
                   customerVat = JStr (ascii ''598765431''),
                   total = JStr (ascii ''1000''), vat = JNum (Fin 170),
                   date = JStr (ascii ''2025-09-12''), currency = JStr (ascii ''ILS'')\<rparr>\<rparr>"
  by (simp add: invoiceWithoutTotal_def validate_eval)

lemma dated_eval:
  "validateInvoiceLocally (JObj [(ascii ''date'', JStr (ascii ''2025-09-12''))]) =
     Inr \<lparr>level = RED, score = 26,
          issues = [req (ascii ''SUPPLIER_VAT'') HIGH msg_SUPPLIER_VAT fix_SUPPLIER_VAT,
                    req (ascii ''CUSTOMER_VAT'') MED msg_CUSTOMER_VAT fix_CUSTOMER_VAT,
                    req (ascii ''TOTAL'') HIGH msg_TOTAL fix_TOTAL,
                    req (ascii ''VAT'') MED msg_VAT fix_VAT],
          meta = \<lparr>supplierVat = JStr [], customerVat = JStr [], total = JStr [], vat = JStr [],
                   date = JStr (ascii ''2025-09-12''), currency = JStr (ascii ''ILS'')\<rparr>\<rparr>"
  by (simp add: validate_eval)

lemma boundary_numbers:
  "rnd (651 / 10) = Fin (2290502622982963 / 35184372088832)"
  "rnd (86 / 10) = Fin (4841369599423283 / 562949953421312)"
  by (simp_all add: rnd_eval)

lemma boundary_arith:
  "\<not> js_gt (Math_abs (js_sub (js_div (Math_round (js_mul (js_mul
      (js_sub (Fin (2290502622982963 / 35184372088832)) (Fin (4841369599423283 / 562949953421312)))
      vatRate) (Fin 100))) (Fin 100)) (Fin (4841369599423283 / 562949953421312)))) (Fin 1)"
  "\<not> js_le (js_sub (Fin (2290502622982963 / 35184372088832))
      (Fin (4841369599423283 / 562949953421312))) (Fin 0)"
  by (simp_all add: vatRate_value rnd_eval js_gt_def js_le_def)

lemma boundary_eval:
  "validateInvoiceLocally boundaryInvoice =
     Inr \<lparr>level = GREEN, score = 100, issues = [],
          meta = \<lparr>supplierVat = JStr (ascii ''512345679''),
                   customerVat = JStr (ascii ''598765431''),
                   total = JNum (Fin (2290502622982963 / 35184372088832)),
                   vat = JNum (Fin (4841369599423283 / 562949953421312)),
                   date = JStr (ascii ''2025-09-12''), currency = JStr (ascii ''ILS'')\<rparr>\<rparr>"
  unfolding boundaryInvoice_def boundary_numbers
  by (simp add: validate_eval boundary_arith del: js_sub.simps)

section \<open>The claims\<close>

text \<open>
  C1. For the canonical sample record the validator returns a report whose issues list
  holds exactly one finding, with code \<^verbatim>\<open>VAT_MISMATCH\<close> and severity \<^verbatim>\<open>MED\<close> (medium), whose
  score is 88 and whose level is \<^verbatim>\<open>GREEN\<close>.
\<close>

theorem sample_report:
  "\<exists>r. validateInvoiceLocally sampleInvoice = Inr r
     \<and> reported r = [(ascii ''VAT_MISMATCH'', MED)]
     \<and> score r = 88 \<and> level r = GREEN"
  by (simp add: sample_eval reported_def req_def)

text \<open>
  C5. For the empty record the validator reports exactly \<^verbatim>\<open>SUPPLIER_VAT\<close> (high),
  \<^verbatim>\<open>CUSTOMER_VAT\<close> (medium), \<^verbatim>\<open>DATE\<close> (medium), \<^verbatim>\<open>TOTAL\<close> (high) and \<^verbatim>\<open>VAT\<close> (medium),
  no format, arithmetic, currency or invoice-id finding, with score 14 and level \<^verbatim>\<open>RED\<close>.
\<close>

theorem empty_record_report:
  "\<exists>r. validateInvoiceLocally (JObj []) = Inr r
     \<and> reported r = [(ascii ''SUPPLIER_VAT'', HIGH), (ascii ''CUSTOMER_VAT'', MED),
          (ascii ''DATE'', MED), (ascii ''TOTAL'', HIGH), (ascii ''VAT'', MED)]
     \<and> score r = 14 \<and> level r = RED"
  by (simp add: empty_eval reported_def req_def)

text \<open>
  C2 states that the validator never throws, whatever the input, \<^verbatim>\<open>null\<close> and
  \<^verbatim>\<open>undefined\<close> included. The code reads \<^verbatim>\<open>inv.total\<close> without the \<^verbatim>\<open>?.\<close> that guards
  every other access, so on \<^verbatim>\<open>null\<close> and on \<^verbatim>\<open>undefined\<close> it throws a \<^verbatim>\<open>TypeError\<close>; it also
  throws when \<^verbatim>\<open>String\<close> is applied to a field that is an object with an own property
  \<^verbatim>\<open>toString\<close>.
\<close>

theorem validate_throws:
  "validateInvoiceLocally JNull = Inl TypeError
   \<and> validateInvoiceLocally JUndefined = Inl TypeError
   \<and> validateInvoiceLocally
        (JObj [(ascii ''supplierVat'', JObj [(ascii ''toString'', JNum (Fin 1))])]) = Inl TypeError"
  by (simp add: validate_eval)


text \<open>
  C3. Whenever the validator returns a report, its score is 100 minus the sum over all
  findings of the penalty of their severity (high 25, medium 12, low 5), only the final
  result being clamped to the interval from 0 to 100; so the score lies between 0 and 100.
\<close>

theorem score_formula:
  assumes "validateInvoiceLocally invoice = Inr r"
  shows "score r = max 0 (min 100 (100 - (\<Sum>i\<leftarrow>issues r. severity_penalty (severity i))))
     \<and> 0 \<le> score r \<and> score r \<le> 100"
  using validate_score(1) [OF assms] by (simp add: foldl_penalty)

theorem score_formula_witness:
  "\<exists>r. validateInvoiceLocally sampleInvoice = Inr r
     \<and> score r = max 0 (min 100 (100 - (\<Sum>i\<leftarrow>issues r. severity_penalty (severity i))))
     \<and> 0 \<le> score r \<and> score r \<le> 100"
  using score_formula [OF sample_eval] sample_eval by blast

text \<open>
  C4. The level of a returned report is determined by its score alone: \<^verbatim>\<open>GREEN\<close> exactly
  when the score is at least 85, \<^verbatim>\<open>YELLOW\<close> exactly when it is at least 60 and below 85,
  \<^verbatim>\<open>RED\<close> exactly when it is below 60.
\<close>

theorem level_thresholds:
  assumes "validateInvoiceLocally invoice = Inr r"
  shows "(level r = GREEN \<longleftrightarrow> 85 \<le> score r)
     \<and> (level r = YELLOW \<longleftrightarrow> 60 \<le> score r \<and> score r < 85)
     \<and> (level r = RED \<longleftrightarrow> score r < 60)"
  using validate_score(2) [OF assms] by auto

theorem level_thresholds_witness:
  "\<exists>r. validateInvoiceLocally sampleInvoice = Inr r
     \<and> (level r = GREEN \<longleftrightarrow> 85 \<le> score r)
     \<and> (level r = YELLOW \<longleftrightarrow> 60 \<le> score r \<and> score r < 85)
     \<and> (level r = RED \<longleftrightarrow> score r < 60)"
  using level_thresholds [OF sample_eval] sample_eval by blast

text \<open>
  C9. Whenever the validator returns a report, the penalties of its findings sum to at
  most 96, so the score is at least 4 and equals 100 minus that sum: the clamp at 0 is
  never active. The record of the witness reaches the bound.
\<close>

theorem penalty_at_most_96:
  assumes "validateInvoiceLocally invoice = Inr r"
  shows "(\<Sum>i\<leftarrow>issues r. severity_penalty (severity i)) \<le> 96
     \<and> 4 \<le> score r
     \<and> score r = 100 - (\<Sum>i\<leftarrow>issues r. severity_penalty (severity i))"
  using validate_penalty [OF assms] findings_penalty_bounds(2) [of invoice] by simp


theorem penalty_at_most_96_witness:
  "\<exists>r. validateInvoiceLocally
          (JObj [(ascii ''currency'', JStr (ascii ''GBP'')),
                 (ascii ''invoiceId'', JStr (ascii ''AB''))]) = Inr r
     \<and> (\<Sum>i\<leftarrow>issues r. severity_penalty (severity i)) \<le> 96
     \<and> 4 \<le> score r
     \<and> score r = 100 - (\<Sum>i\<leftarrow>issues r. severity_penalty (severity i))
     \<and> score r = 4"
  using penalty_at_most_96 [OF worst_eval] worst_eval by simp

text \<open>
  C7 states when the two arithmetic findings are produced, by the product of the subtotal
  and 0.17, its rounding to two decimals and the distance to the VAT. Read in exact
  arithmetic this fails on the code: for \<^verbatim>\<open>total: 65.1\<close> and \<^verbatim>\<open>vat: 8.6\<close> the expected VAT is
  9.6 on the binary64 values of the amounts and 9.61 on the decimals, more than 1 away
  from the VAT either way, while the code, computing in binary64, finds a distance of
  exactly 1 and reports no \<^verbatim>\<open>VAT_MISMATCH\<close>.
\<close>

theorem exact_reading_fails:
  "rnd (651 / 10) = Fin (2290502622982963 / 35184372088832)
   \<and> rnd (86 / 10) = Fin (4841369599423283 / 562949953421312)
   \<and> exact_vat_mismatch (2290502622982963 / 35184372088832) (4841369599423283 / 562949953421312)
   \<and> exact_vat_mismatch (651 / 10) (86 / 10)
   \<and> map_sum id reported (validateInvoiceLocally boundaryInvoice) = Inr []"
  unfolding boundary_eval boundary_numbers
  by (simp add: exact_vat_mismatch_def exact_expected_vat_def reported_def)

text \<open>
  C7, amended. When \<^verbatim>\<open>total\<close> and \<^verbatim>\<open>vat\<close> are both numbers, \<^verbatim>\<open>VAT_MISMATCH\<close> (medium) is
  produced exactly when the distance between the expected VAT and the VAT is above 1,
  and \<^verbatim>\<open>SUBTOTAL_NEG\<close> (high) exactly when the subtotal is at most 0, every operation being
  computed in binary64: the subtraction, the product by the binary64 value nearest to
  0.17, the product by 100, the rounding to the nearest integer (a tie upwards), the
  division by 100 and the final subtraction are each rounded to the nearest binary64
  value. Neither finding is produced when \<^verbatim>\<open>total\<close> or \<^verbatim>\<open>vat\<close> is not a number.
\<close>

theorem arithmetic_findings:
  assumes "validateInvoiceLocally invoice = Inr r"
  shows "(\<forall>t v. opt_get invoice (ascii ''total'') = JNum t \<and> opt_get invoice (ascii ''vat'') = JNum v \<longrightarrow>
            (ascii ''VAT_MISMATCH'' \<in> codes r \<longleftrightarrow> binary64_vat_mismatch t v)
            \<and> ((ascii ''VAT_MISMATCH'', MED) \<in> set (reported r) \<longleftrightarrow> binary64_vat_mismatch t v)
            \<and> (ascii ''SUBTOTAL_NEG'' \<in> codes r \<longleftrightarrow> binary64_subtotal_neg t v)
            \<and> ((ascii ''SUBTOTAL_NEG'', HIGH) \<in> set (reported r) \<longleftrightarrow> binary64_subtotal_neg t v))
     \<and> ((\<forall>a. opt_get invoice (ascii ''total'') \<noteq> JNum a)
          \<or> (\<forall>b. opt_get invoice (ascii ''vat'') \<noteq> JNum b) \<longrightarrow>
            ascii ''VAT_MISMATCH'' \<notin> codes r \<and> ascii ''SUBTOTAL_NEG'' \<notin> codes r)"
proof -
  have r: "reported r = findings invoice"
    using assms by (rule validate_reported)
  have others: "\<not> vat_mismatch t v \<and> \<not> subtotal_neg t v"
    if "(\<forall>a. t \<noteq> JNum a) \<or> (\<forall>b. v \<noteq> JNum b)" for t v
    using that by (cases t; cases v) (simp_all add: vat_mismatch_def subtotal_neg_def)
  show ?thesis
    unfolding codes_reported r findings_code_iff findings_pair_iff
    using others [of "opt_get invoice (ascii ''total'')" "opt_get invoice (ascii ''vat'')"]
    by (auto simp: vat_mismatch_binary64 subtotal_neg_binary64
        simp del: ascii_Cons binary64_vat_mismatch.simps binary64_subtotal_neg.simps)
qed



theorem arithmetic_findings_witness:
  "(\<exists>r. validateInvoiceLocally sampleInvoice = Inr r
      \<and> opt_get sampleInvoice (ascii ''total'') = JNum (Fin 1000)
      \<and> opt_get sampleInvoice (ascii ''vat'') = JNum (Fin 170)
      \<and> ascii ''VAT_MISMATCH'' \<in> codes r
      \<and> binary64_vat_mismatch (Fin 1000) (Fin 170)
      \<and> ascii ''SUBTOTAL_NEG'' \<notin> codes r
      \<and> \<not> binary64_subtotal_neg (Fin 1000) (Fin 170))
   \<and> (\<exists>r. validateInvoiceLocally (JObj []) = Inr r
      \<and> (\<forall>a. opt_get (JObj []) (ascii ''total'') \<noteq> JNum a)
      \<and> ascii ''VAT_MISMATCH'' \<notin> codes r \<and> ascii ''SUBTOTAL_NEG'' \<notin> codes r)"
proof -
  have t: "opt_get sampleInvoice (ascii ''total'') = JNum (Fin 1000)"
    and v: "opt_get sampleInvoice (ascii ''vat'') = JNum (Fin 170)"
    by (simp_all add: sampleInvoice_def opt_get_def nullish_def)
  have e: "\<forall>a. opt_get (JObj []) (ascii ''total'') \<noteq> JNum a"
    by (simp add: opt_get_def nullish_def)
  have c: "ascii ''VAT_MISMATCH'' \<in> codes \<lparr>level = l, score = n,
        issues = [req (ascii ''VAT_MISMATCH'') MED m f], meta = x\<rparr>"
    "ascii ''SUBTOTAL_NEG'' \<notin> codes \<lparr>level = l, score = n,
        issues = [req (ascii ''VAT_MISMATCH'') MED m f], meta = x\<rparr>" for l n m f x
    by (simp_all add: codes_def req_def)
  show ?thesis
    using arithmetic_findings [OF sample_eval] arithmetic_findings [OF empty_eval] t v e c
    unfolding sample_eval empty_eval
    by (auto simp del: ascii_Cons binary64_vat_mismatch.simps binary64_subtotal_neg.simps)
qed


text \<open>
  C8. The normalizer returns, for each of the six tracked fields, the value of the field
  when it is present and neither \<^verbatim>\<open>null\<close> nor \<^verbatim>\<open>undefined\<close>, and otherwise the fallback: the
  empty string, and \<^verbatim>\<open>ILS\<close> for \<^verbatim>\<open>currency\<close>. A number in \<^verbatim>\<open>total\<close> or \<^verbatim>\<open>vat\<close> is passed
  through as the number it is.
\<close>

theorem extractMeta_fields:
  "extractMeta invoice =
     \<lparr>supplierVat = field_or invoice ''supplierVat'' (JStr []),
      customerVat = field_or invoice ''customerVat'' (JStr []),
      total = field_or invoice ''total'' (JStr []),
      vat = field_or invoice ''vat'' (JStr []),
      date = field_or invoice ''date'' (JStr []),
      currency = field_or invoice ''currency'' (JStr (ascii ''ILS''))\<rparr>
   \<and> (\<forall>ps n. invoice = JObj ps \<and> map_of ps (ascii ''total'') = Some (JNum n)
         \<longrightarrow> total (extractMeta invoice) = JNum n)
   \<and> (\<forall>ps n. invoice = JObj ps \<and> map_of ps (ascii ''vat'') = Some (JNum n)
         \<longrightarrow> vat (extractMeta invoice) = JNum n)"
proof -
  have f: "coalesce (opt_get invoice (ascii f)) d = field_or invoice f d" for f d
    by (cases invoice)
      (auto simp: coalesce_def opt_get_def nullish_def field_or_def split: option.splits
        simp del: ascii_Cons)
  show ?thesis
    unfolding extractMeta_def f
    by (auto simp: field_or_def simp del: ascii_Cons)
qed

theorem extractMeta_fields_witness:
  "extractMeta sampleInvoice =
     \<lparr>supplierVat = JStr (ascii ''512345679''), customerVat = JStr (ascii ''598765431''),
      total = JNum (Fin 1000), vat = JNum (Fin 170), date = JStr (ascii ''2025-09-12''),
      currency = JStr (ascii ''ILS'')\<rparr>
   \<and> extractMeta (JObj [(ascii ''total'', JNull)]) =
     \<lparr>supplierVat = JStr [], customerVat = JStr [], total = JStr [], vat = JStr [],
      date = JStr [], currency = JStr (ascii ''ILS'')\<rparr>"
  using extractMeta_fields [of sampleInvoice] extractMeta_fields [of "JObj [(ascii ''total'', JNull)]"]
  by (simp add: field_or_def sampleInvoice_def)

text \<open>
  C10. The format checks test the string of the field, not the field: when
  \<^verbatim>\<open>supplierVat\<close> (\<^verbatim>\<open>customerVat\<close>) is a truthy value that is not a string, such as the number
  123456789, and whose string is exactly nine ASCII digits, \<^verbatim>\<open>SUPPLIER_VAT_FMT\<close>
  (\<^verbatim>\<open>CUSTOMER_VAT_FMT\<close>) is not produced.
\<close>

theorem format_check_coerces:
  assumes "validateInvoiceLocally invoice = Inr r"
    and "truthy v" and "\<forall>x. v \<noteq> JStr x"
    and "js_String v = Inr s" and "nine_digits s"
  shows "(opt_get invoice (ascii ''supplierVat'') = v \<longrightarrow> ascii ''SUPPLIER_VAT_FMT'' \<notin> codes r)
     \<and> (opt_get invoice (ascii ''customerVat'') = v \<longrightarrow> ascii ''CUSTOMER_VAT_FMT'' \<notin> codes r)"
proof -
  have "\<not> bad_vat_number v"
    using assms(4,5) by (simp add: bad_vat_number_def)
  then show ?thesis
    unfolding codes_reported validate_reported [OF assms(1)] findings_code_iff by blast
qed

theorem format_check_coerces_witness:
  "\<exists>r. validateInvoiceLocally
          (JObj [(ascii ''supplierVat'', JNum (Fin 123456789)),
                 (ascii ''customerVat'', JArr [JNum (Fin 123456789)])]) = Inr r
     \<and> truthy (JNum (Fin 123456789))
     \<and> js_String (JNum (Fin 123456789)) = Inr (ascii ''123456789'')
     \<and> nine_digits (ascii ''123456789'')
     \<and> ascii ''SUPPLIER_VAT_FMT'' \<notin> codes r
     \<and> ascii ''CUSTOMER_VAT_FMT'' \<notin> codes r"
proof -
  let ?inv = "JObj [(ascii ''supplierVat'', JNum (Fin 123456789)),
                 (ascii ''customerVat'', JArr [JNum (Fin 123456789)])]"
  have n: "truthy (JNum (Fin 123456789))" "\<forall>x. JNum (Fin 123456789) \<noteq> JStr x"
    "js_String (JNum (Fin 123456789)) = Inr (ascii ''123456789'')"
    "nine_digits (ascii ''123456789'')"
    by (simp_all add: number_string_9 nine_digits_def is_digit_def del: Number_toString.simps)
  have a: "truthy (JArr [JNum (Fin 123456789)])" "\<forall>x. JArr [JNum (Fin 123456789)] \<noteq> JStr x"
    "js_String (JArr [JNum (Fin 123456789)]) = Inr (ascii ''123456789'')"
    by (simp_all add: number_string_9 nullish_def del: Number_toString.simps)
  have g: "opt_get ?inv (ascii ''supplierVat'') = JNum (Fin 123456789)"
    "opt_get ?inv (ascii ''customerVat'') = JArr [JNum (Fin 123456789)]"
    by (simp_all add: opt_get_def nullish_def)
  show ?thesis
    using format_check_coerces [OF numeric_vat_eval n] format_check_coerces [OF numeric_vat_eval a n(4)]
      g n numeric_vat_eval
    by blast
qed


text \<open>
  C6 states that replacing a field whose check fails by a value that makes the check
  pass never lowers the score. It fails on the sample without its \<^verbatim>\<open>total\<close>: the check
  \<^verbatim>\<open>TOTAL\<close> fails and the score is 75; with \<^verbatim>\<open>total = 100\<close> the check passes, the
  arithmetic checks now run and both fail, and the score is 63.
\<close>

theorem fix_lowers_score:
  "map_sum id reported (validateInvoiceLocally (JObj invoiceWithoutTotal))
     = Inr [(ascii ''TOTAL'', HIGH)]
   \<and> map_sum id score (validateInvoiceLocally (JObj invoiceWithoutTotal)) = Inr 75
   \<and> map_sum id reported
         (validateInvoiceLocally (JObj ((ascii ''total'', JNum (Fin 100)) # invoiceWithoutTotal)))
     = Inr [(ascii ''VAT_MISMATCH'', MED), (ascii ''SUBTOTAL_NEG'', HIGH)]
   \<and> map_sum id score
         (validateInvoiceLocally (JObj ((ascii ''total'', JNum (Fin 100)) # invoiceWithoutTotal)))
     = Inr 63"
  unfolding without_total_eval total_100_eval
  by (simp add: reported_def req_def)

text \<open>
  C6, amended. Replacing a field of a record whose check fails by a value that makes
  the check pass, the other fields unchanged, never lowers the score, provided that the
  field is neither \<^verbatim>\<open>total\<close> nor \<^verbatim>\<open>vat\<close>, or that no check passing on the record fails after
  the replacement.
\<close>

theorem fix_never_lowers_score:
  assumes "validateInvoiceLocally (JObj ps) = Inr r"
    and "validateInvoiceLocally (JObj ((f, v) # ps)) = Inr r'"
    and "c \<in> codes r" and "c \<notin> codes r'"
    and "(f \<noteq> ascii ''total'' \<and> f \<noteq> ascii ''vat'') \<or> codes r' \<subseteq> codes r"
  shows "score r \<le> score r'"
proof -
  have r: "codes r = fst ` set (findings (JObj ps))"
    and r': "codes r' = fst ` set (findings (JObj ((f, v) # ps)))"
    using assms(1,2) by (simp_all add: codes_reported validate_reported)
  have "(\<Sum>p\<leftarrow>findings (JObj ((f, v) # ps)). severity_penalty (snd p))
           \<le> (\<Sum>p\<leftarrow>findings (JObj ps). severity_penalty (snd p))"
  proof (cases "codes r' \<subseteq> codes r")
    case True
    then show ?thesis
      unfolding r r' by (rule penalty_subset)
  next
    case False
    with assms(5) have "f \<noteq> ascii ''total''" "f \<noteq> ascii ''vat''"
      by blast+
    with assms(3,4) show ?thesis
      unfolding r r' by (rule penalty_other_field)
  qed
  then show ?thesis
    using validate_penalty [OF assms(1)] validate_penalty [OF assms(2)] by simp
qed


theorem fix_never_lowers_score_witness:
  "(\<exists>r r'. validateInvoiceLocally (JObj []) = Inr r
      \<and> validateInvoiceLocally (JObj ((ascii ''date'', JStr (ascii ''2025-09-12'')) # [])) = Inr r'
      \<and> ascii ''DATE'' \<in> codes r \<and> ascii ''DATE'' \<notin> codes r'
      \<and> ascii ''date'' \<noteq> ascii ''total'' \<and> ascii ''date'' \<noteq> ascii ''vat''
      \<and> score r \<le> score r' \<and> score r = 14 \<and> score r' = 26)
   \<and> (\<exists>r r'. validateInvoiceLocally (JObj invoiceWithoutTotal) = Inr r
      \<and> validateInvoiceLocally
            (JObj ((ascii ''total'', JStr (ascii ''1000'')) # invoiceWithoutTotal)) = Inr r'
      \<and> ascii ''TOTAL'' \<in> codes r \<and> ascii ''TOTAL'' \<notin> codes r'
      \<and> codes r' \<subseteq> codes r
      \<and> score r \<le> score r' \<and> score r = 75 \<and> score r' = 100)"
  using fix_never_lowers_score [OF empty_eval dated_eval, of "ascii ''DATE''"]
    fix_never_lowers_score [OF without_total_eval total_string_eval, of "ascii ''TOTAL''"]
  unfolding empty_eval dated_eval without_total_eval total_string_eval
  by (simp add: codes_def req_def)

end
